theory Spec2Isabelle
  imports Complex_Main
begin

section \<open>Python values, exceptions and string primitives\<close>

text \<open>
  The program is \<^verbatim>\<open>pysar/save_hdfeos5.py\<close>. Its three pure functions
  \<^verbatim>\<open>get_mission_name\<close>, \<^verbatim>\<open>metadata_pysar2unavco\<close> and
  \<^verbatim>\<open>get_output_filename\<close> are embedded below. Strings are ASCII text, one
  \<^typ>\<open>char\<close> per character. A raised exception is the left injection of a sum;
  \<^verbatim>\<open>print\<close> calls have no effect on any returned value and are left out.
\<close>

datatype pyerr = KeyError string | ValueError | TypeError | IndexError | OverflowError

text \<open>The values a metadata dictionary holds: \<^verbatim>\<open>None\<close>, \<^verbatim>\<open>str\<close>,
  \<^verbatim>\<open>int\<close> and \<^verbatim>\<open>float\<close> (the float type is a parameter, see below).\<close>

datatype 'f pyval = PNone | PStr string | PInt int | PFloat 'f

text \<open>Sequencing: the statements after a raising one do not run.\<close>

fun ebind :: "'e + 'a \<Rightarrow> ('a \<Rightarrow> 'e + 'b) \<Rightarrow> 'e + 'b" where
  "ebind (Inr x) rest = rest x"
| "ebind (Inl err) rest = Inl err"

text \<open>\<^verbatim>\<open>d[key]\<close>: a missing key raises \<^verbatim>\<open>KeyError\<close>.\<close>

definition getitem :: "(string \<rightharpoonup> 'v) \<Rightarrow> string \<Rightarrow> pyerr + 'v" where
  "getitem d k = (case d k of None \<Rightarrow> Inl (KeyError k) | Some v \<Rightarrow> Inr v)"

text \<open>\<^verbatim>\<open>str.lower\<close> and \<^verbatim>\<open>str.upper\<close> on ASCII letters.\<close>

definition ascii_upper :: string where
  "ascii_upper = ''ABCDEFGHIJKLMNOPQRSTUVWXYZ''"

definition ascii_lower :: string where
  "ascii_lower = ''abcdefghijklmnopqrstuvwxyz''"

definition lower_char :: "char \<Rightarrow> char" where
  "lower_char c = (case map_of (zip ascii_upper ascii_lower) c of Some d \<Rightarrow> d | None \<Rightarrow> c)"

definition upper_char :: "char \<Rightarrow> char" where
  "upper_char c = (case map_of (zip ascii_lower ascii_upper) c of Some d \<Rightarrow> d | None \<Rightarrow> c)"

definition py_lower :: "string \<Rightarrow> string" where
  "py_lower s = map lower_char s"

definition py_upper :: "string \<Rightarrow> string" where
  "py_upper s = map upper_char s"

text \<open>\<^verbatim>\<open>s.startswith(p)\<close>, \<^verbatim>\<open>s.startswith((p1, p2, ...))\<close> and
  \<^verbatim>\<open>s.endswith(p)\<close>.\<close>

definition startswith :: "string \<Rightarrow> string \<Rightarrow> bool" where
  "startswith s p = (take (length p) s = p)"

definition startswith_any :: "string \<Rightarrow> string list \<Rightarrow> bool" where
  "startswith_any s ps = list_ex (startswith s) ps"

definition endswith :: "string \<Rightarrow> string \<Rightarrow> bool" where
  "endswith s p = (length p \<le> length s \<and> drop (length s - length p) s = p)"

section \<open>Mission classification\<close>

text \<open>
  \<^verbatim>\<open>get_mission_name(meta_dict)\<close>, lines 72 to 116. The attribute values are strings,
  so \<^verbatim>\<open>.lower()\<close> cannot fail and the function has no raising path: it returns a
  mission code or \<^verbatim>\<open>None\<close>.
\<close>

definition get_mission_name :: "(string \<rightharpoonup> string) \<Rightarrow> string option" where
  "get_mission_name meta_dict =
    (case (case meta_dict ''mission'' of
             Some x \<Rightarrow> Some (py_lower x)
           | None \<Rightarrow> (case meta_dict ''PLATFORM'' of
                        Some x \<Rightarrow> Some (py_lower x)
                      | None \<Rightarrow> None)) of
       None \<Rightarrow> None
     | Some v \<Rightarrow>
         if startswith v ''ers'' then Some ''ERS''
         else if startswith_any v [''env'', ''asar''] then Some ''ENV''
         else if startswith_any v [''s1'', ''sen''] then Some ''S1''
         else if startswith_any v [''rs'', ''rsat'', ''radarsat''] then
           Some (''RS'' @ (if endswith v ''1'' then ''1'' else ''2''))
         else if startswith_any v [''csk'', ''cos''] then Some ''CSK''
         else if startswith_any v [''tsx'', ''tdx'', ''terra'', ''tandem''] then Some ''TSX''
         else if startswith v ''jers'' then Some ''JERS''
         else if startswith_any v [''alos'', ''palsar''] then
           (if endswith v ''2'' then Some ''ALOS2'' else Some ''ALOS'')
         else None)"

text \<open>The mission indicator in the words of the specification: the raw value of
  \<^verbatim>\<open>mission\<close> if that key is present, else the raw value of \<^verbatim>\<open>PLATFORM\<close>.\<close>

definition mission_indicator :: "(string \<rightharpoonup> string) \<Rightarrow> string option" where
  "mission_indicator m = (case m ''mission'' of Some x \<Rightarrow> Some x | None \<Rightarrow> m ''PLATFORM'')"

text \<open>Every prefix of the fixed table.\<close>

definition mission_prefixes :: "string list" where
  "mission_prefixes =
     [''ers'', ''env'', ''asar'', ''s1'', ''sen'', ''rs'', ''rsat'', ''radarsat'', ''csk'', ''cos'',
      ''tsx'', ''tdx'', ''terra'', ''tandem'', ''jers'', ''alos'', ''palsar'']"

section \<open>Integers and their text\<close>

definition digit_chars :: string where
  "digit_chars = ''0123456789''"

definition is_digit :: "char \<Rightarrow> bool" where
  "is_digit c = (c \<in> set digit_chars)"

definition digit_val :: "char \<Rightarrow> nat" where
  "digit_val c = length (takeWhile (\<lambda>d. d \<noteq> c) digit_chars)"

definition nat_of_digits :: "string \<Rightarrow> nat" where
  "nat_of_digits ds = foldl (\<lambda>a c. 10 * a + digit_val c) 0 ds"

fun nat_digits :: "nat \<Rightarrow> string" where
  "nat_digits n =
     (if n < 10 then [digit_chars ! n] else nat_digits (n div 10) @ [digit_chars ! (n mod 10)])"

declare nat_digits.simps [simp del]

text \<open>\<^verbatim>\<open>str(n)\<close> of an integer.\<close>

definition int_str :: "int \<Rightarrow> string" where
  "int_str n = (if n < 0 then ''-'' @ nat_digits (nat (- n)) else nat_digits (nat n))"

definition zfill :: "nat \<Rightarrow> string \<Rightarrow> string" where
  "zfill w s = replicate (w - length s) (CHR ''0'') @ s"

text \<open>\<^verbatim>\<open>'%0wd' % n\<close>: at least \<open>w\<close> characters, the sign counted in the width.\<close>

definition fmt_0d :: "nat \<Rightarrow> int \<Rightarrow> string" where
  "fmt_0d w n =
     (if n < 0 then ''-'' @ zfill (w - 1) (nat_digits (nat (- n))) else zfill w (nat_digits (nat n)))"

text \<open>ASCII white space, as stripped by \<^verbatim>\<open>int\<close> and \<^verbatim>\<open>float\<close>.\<close>

definition py_isspace :: "char \<Rightarrow> bool" where
  "py_isspace c = (c \<in> set [CHR '' '', CHR 0x09, CHR 0x0A, CHR 0x0B, CHR 0x0C, CHR 0x0D])"

definition py_strip :: "string \<Rightarrow> string" where
  "py_strip s = rev (dropWhile py_isspace (rev (dropWhile py_isspace s)))"

text \<open>A digit part \<^verbatim>\<open>digit (["_"] digit)*\<close>: \<open>digits_tail\<close> reads what follows a
  digit and returns the digits read (underscores dropped) and the unread rest.\<close>

fun digits_tail :: "string \<Rightarrow> string \<times> string" where
  "digits_tail [] = ([], [])"
| "digits_tail [c] = (if is_digit c then ([c], []) else ([], [c]))"
| "digits_tail (c # d # cs) =
     (if is_digit c then (case digits_tail (d # cs) of (ds, r) \<Rightarrow> (c # ds, r))
      else if c = CHR ''_'' \<and> is_digit d then (case digits_tail cs of (ds, r) \<Rightarrow> (d # ds, r))
      else ([], c # d # cs))"

definition digitpart :: "string \<Rightarrow> (string \<times> string) option" where
  "digitpart s =
     (case s of
        [] \<Rightarrow> None
      | c # cs \<Rightarrow> if is_digit c then (case digits_tail cs of (ds, r) \<Rightarrow> Some (c # ds, r)) else None)"

text \<open>An optional sign: whether it is a minus, and the rest.\<close>

definition take_sign :: "string \<Rightarrow> bool \<times> string" where
  "take_sign s =
     (case s of
        [] \<Rightarrow> (False, [])
      | c # cs \<Rightarrow> if c = CHR ''-'' then (True, cs) else if c = CHR ''+'' then (False, cs) else (False, c # cs))"

text \<open>\<^verbatim>\<open>int(s)\<close> of a string, base ten; \<^verbatim>\<open>ValueError\<close> on anything else.\<close>

definition int_of_str :: "string \<Rightarrow> pyerr + int" where
  "int_of_str s =
     (case take_sign (py_strip s) of (neg, u) \<Rightarrow>
        (case digitpart u of
           Some (ds, []) \<Rightarrow> Inr (if neg then - int (nat_of_digits ds) else int (nat_of_digits ds))
         | _ \<Rightarrow> Inl ValueError))"

text \<open>Subscripting a list, \<^verbatim>\<open>xs[i]\<close>: position \<open>i\<close> from the front when \<open>i\<close> is not
  negative, position \<open>- i\<close> from the back otherwise, and \<^verbatim>\<open>IndexError\<close> when the
  list is too short for either.\<close>

definition py_index :: "'a list \<Rightarrow> int \<Rightarrow> pyerr + 'a" where
  "py_index xs i =
     (if 0 \<le> i \<and> nat i < length xs then Inr (xs ! nat i)
      else if i < 0 \<and> nat (- i) \<le> length xs then Inr (xs ! (length xs - nat (- i)))
      else Inl IndexError)"

text \<open>\<^verbatim>\<open>sep.join(xs)\<close>.\<close>

fun py_join :: "string \<Rightarrow> string list \<Rightarrow> string" where
  "py_join sep [] = []"
| "py_join sep [x] = x"
| "py_join sep (x # y # ys) = x @ sep @ py_join sep (y # ys)"

text \<open>\<^verbatim>\<open>sub in s\<close> and \<^verbatim>\<open>s.split(sep)\<close> for a non-empty separator: \<open>find_sub\<close>
  gives the text before and after the first occurrence.\<close>

fun find_sub :: "string \<Rightarrow> string \<Rightarrow> (string \<times> string) option" where
  "find_sub sep [] = (if sep = [] then Some ([], []) else None)"
| "find_sub sep (c # cs) =
     (if startswith (c # cs) sep then Some ([], drop (length sep) (c # cs))
      else map_option (\<lambda>(a, b). (c # a, b)) (find_sub sep cs))"

definition py_in :: "string \<Rightarrow> string \<Rightarrow> bool" where
  "py_in sub s = (find_sub sub s \<noteq> None)"

fun split_from :: "string \<Rightarrow> string \<Rightarrow> string \<Rightarrow> string list" where
  "split_from sep acc [] = [rev acc]"
| "split_from sep acc (c # cs) =
     (if startswith (c # cs) sep then rev acc # split_from sep [] (drop (length sep - 1) cs)
      else split_from sep (c # acc) cs)"

definition py_split :: "string \<Rightarrow> string \<Rightarrow> string list" where
  "py_split sep s = split_from sep [] s"

section \<open>Floating point as a parameter\<close>

text \<open>
  Python's \<^verbatim>\<open>float\<close> is not embedded: the operations the program uses on it are
  taken as a parameter \<open>F\<close>, so that every general theorem below holds for any
  implementation of them. \<open>binary64\<close> further down is the IEEE 754 instance used
  to evaluate concrete inputs.
\<close>

record 'f float_ops =
  float_of_str :: "string \<Rightarrow> pyerr + 'f"
  float_of_int :: "int \<Rightarrow> pyerr + 'f"
  int_of_float :: "'f \<Rightarrow> pyerr + int"
  float_round :: "'f \<Rightarrow> pyerr + int"
  float_add :: "'f \<Rightarrow> 'f \<Rightarrow> 'f"
  float_mul :: "'f \<Rightarrow> 'f \<Rightarrow> 'f"
  float_lt :: "'f \<Rightarrow> 'f \<Rightarrow> bool"
  float_abs :: "'f \<Rightarrow> 'f"
  float_bool :: "'f \<Rightarrow> bool"
  float_str :: "'f \<Rightarrow> string"
  float_1e3 :: "'f"
  float_0 :: "'f"

text \<open>\<^verbatim>\<open>float(v)\<close>, \<^verbatim>\<open>int(v)\<close>, \<^verbatim>\<open>str(v)\<close> and the truth value of a
  dictionary value, and \<^verbatim>\<open>x * n\<close> for a float and an int.\<close>

definition py_float :: "'f float_ops \<Rightarrow> 'f pyval \<Rightarrow> pyerr + 'f" where
  "py_float F v =
     (case v of PNone \<Rightarrow> Inl TypeError | PStr s \<Rightarrow> float_of_str F s
      | PInt n \<Rightarrow> float_of_int F n | PFloat x \<Rightarrow> Inr x)"

definition py_int :: "'f float_ops \<Rightarrow> 'f pyval \<Rightarrow> pyerr + int" where
  "py_int F v =
     (case v of PNone \<Rightarrow> Inl TypeError | PStr s \<Rightarrow> int_of_str s
      | PInt n \<Rightarrow> Inr n | PFloat x \<Rightarrow> int_of_float F x)"

definition py_str :: "'f float_ops \<Rightarrow> 'f pyval \<Rightarrow> string" where
  "py_str F v =
     (case v of PNone \<Rightarrow> ''None'' | PStr s \<Rightarrow> s | PInt n \<Rightarrow> int_str n | PFloat x \<Rightarrow> float_str F x)"

definition py_bool :: "'f float_ops \<Rightarrow> 'f pyval \<Rightarrow> bool" where
  "py_bool F v =
     (case v of PNone \<Rightarrow> False | PStr s \<Rightarrow> s \<noteq> [] | PInt n \<Rightarrow> n \<noteq> 0 | PFloat x \<Rightarrow> float_bool F x)"

definition as_str :: "'f pyval \<Rightarrow> pyerr + string" where
  "as_str v = (case v of PStr s \<Rightarrow> Inr s | _ \<Rightarrow> Inl TypeError)"

definition float_times_int :: "'f float_ops \<Rightarrow> 'f \<Rightarrow> int \<Rightarrow> pyerr + 'f" where
  "float_times_int F x n = ebind (float_of_int F n) (\<lambda>y. Inr (float_mul F x y))"

section \<open>Dates\<close>

datatype date = Date (year: nat) (month: nat) (day: nat)

definition is_leap :: "nat \<Rightarrow> bool" where
  "is_leap y = (y mod 4 = 0 \<and> (y mod 100 \<noteq> 0 \<or> y mod 400 = 0))"

definition days_in_month :: "nat \<Rightarrow> nat \<Rightarrow> nat" where
  "days_in_month y m =
     (if m = 2 then (if is_leap y then 29 else 28)
      else if m = 4 \<or> m = 6 \<or> m = 9 \<or> m = 11 then 30 else 31)"

text \<open>The \<^verbatim>\<open>datetime\<close> constructor: \<^verbatim>\<open>ValueError\<close> outside the calendar.\<close>

definition make_date :: "nat \<Rightarrow> nat \<Rightarrow> nat \<Rightarrow> pyerr + date" where
  "make_date y m d =
     (if 1 \<le> y \<and> y \<le> 9999 \<and> 1 \<le> m \<and> m \<le> 12 \<and> 1 \<le> d \<and> d \<le> days_in_month y m
      then Inr (Date y m d) else Inl ValueError)"

text \<open>
  \<^verbatim>\<open>strptime\<close> turns the format into a regular expression and matches it at the
  start of the text: \<^verbatim>\<open>%Y\<close> is \<^verbatim>\<open>\d\d\d\d\<close>, \<^verbatim>\<open>%m\<close> is
  \<^verbatim>\<open>1[0-2]|0[1-9]|[1-9]\<close>, \<^verbatim>\<open>%d\<close> is
  \<^verbatim>\<open>3[01]|[12]\d|0[1-9]|[1-9]| [1-9]\<close>. Each function below lists the ways its
  directive can match, in the order the matcher tries them, as the value read and the
  text left.
\<close>

definition re_Y :: "string \<Rightarrow> (nat \<times> string) list" where
  "re_Y s =
     (case s of
        a # b # c # d # r \<Rightarrow>
          if is_digit a \<and> is_digit b \<and> is_digit c \<and> is_digit d
          then [(nat_of_digits [a, b, c, d], r)] else []
      | _ \<Rightarrow> [])"

definition re_two :: "string \<Rightarrow> string \<Rightarrow> string \<Rightarrow> (nat \<times> string) list" where
  "re_two firsts seconds s =
     (case s of
        a # b # r \<Rightarrow> if a \<in> set firsts \<and> b \<in> set seconds then [(nat_of_digits [a, b], r)] else []
      | _ \<Rightarrow> [])"

definition re_one :: "string \<Rightarrow> (nat \<times> string) list" where
  "re_one s =
     (case s of a # r \<Rightarrow> if a \<in> set ''123456789'' then [(digit_val a, r)] else [] | _ \<Rightarrow> [])"

definition re_m :: "string \<Rightarrow> (nat \<times> string) list" where
  "re_m s = re_two ''1'' ''012'' s @ re_two ''0'' ''123456789'' s @ re_one s"

definition re_d :: "string \<Rightarrow> (nat \<times> string) list" where
  "re_d s =
     re_two ''3'' ''01'' s @ re_two ''12'' digit_chars s @ re_two ''0'' ''123456789'' s @ re_one s
     @ (case s of a # r \<Rightarrow> if a = CHR '' '' then re_one r else [] | _ \<Rightarrow> [])"

definition re_lit :: "string \<Rightarrow> string \<Rightarrow> string list" where
  "re_lit lit s = (if startswith s lit then [drop (length lit) s] else [])"

text \<open>\<^verbatim>\<open>datetime.strptime(s, '%Y' + sep + '%m' + sep + '%d')\<close>: the first match
  in the matcher's order, \<^verbatim>\<open>ValueError\<close> if there is none, if text is left over, or
  if the date is not in the calendar.\<close>

definition strptime :: "string \<Rightarrow> string \<Rightarrow> pyerr + date" where
  "strptime sep s =
     (case [(y, m, d, r). (y, r0) \<leftarrow> re_Y s, r1 \<leftarrow> re_lit sep r0, (m, r2) \<leftarrow> re_m r1,
                            r3 \<leftarrow> re_lit sep r2, (d, r) \<leftarrow> re_d r3] of
        [] \<Rightarrow> Inl ValueError
      | (y, m, d, r) # _ \<Rightarrow> if r = [] then make_date y m d else Inl ValueError)"

text \<open>\<^verbatim>\<open>d.isoformat()[0:10]\<close>.\<close>

definition isoformat10 :: "date \<Rightarrow> string" where
  "isoformat10 d =
     fmt_0d 4 (int (year d)) @ ''-'' @ fmt_0d 2 (int (month d)) @ ''-'' @ fmt_0d 2 (int (day d))"

text \<open>
  \<^verbatim>\<open>d.strftime('%Y%m%d')\<close>. \<^verbatim>\<open>%Y\<close> is the C library's: glibc prints the year
  without padding, other libraries pad it to four digits. The two agree from the year
  1000 on; the model follows glibc, and a statement below that reads the digits of a
  formatted year assumes a year of four digits.
\<close>

definition strftime_Ymd :: "date \<Rightarrow> string" where
  "strftime_Ymd d = nat_digits (year d) @ fmt_0d 2 (int (month d)) @ fmt_0d 2 (int (day d))"

section \<open>The metadata translator\<close>

text \<open>\<^verbatim>\<open>try: x = m; except: x = dflt\<close> and \<^verbatim>\<open>try: u[k] = m; except: pass\<close>.\<close>

definition try_except :: "pyerr + 'a \<Rightarrow> 'a \<Rightarrow> 'a" where
  "try_except m dflt = (case m of Inl _ \<Rightarrow> dflt | Inr x \<Rightarrow> x)"

definition try_set :: "(string \<rightharpoonup> 'v) \<Rightarrow> string \<Rightarrow> pyerr + 'v \<Rightarrow> (string \<rightharpoonup> 'v)" where
  "try_set u k m = (case m of Inl _ \<Rightarrow> u | Inr x \<Rightarrow> u(k \<mapsto> x))"

definition emap :: "('a \<Rightarrow> 'b) \<Rightarrow> 'e + 'a \<Rightarrow> 'e + 'b" where
  "emap f m = ebind m (\<lambda>x. Inr (f x))"

text \<open>
  The aliasing loop, lines 121 to 127. The source dictionary is the list of its items in
  iteration order (its keys are distinct); the copy \<^verbatim>\<open>pysar_meta_dict\<close> is only
  looked up afterwards and is a map. \<open>alias_under\<close> is one of the two \<^verbatim>\<open>if\<close>
  statements of the loop body, \<open>alias_step\<close> the whole body.
\<close>

definition alias_under ::
  "string \<Rightarrow> string \<Rightarrow> string \<Rightarrow> (string \<rightharpoonup> string) \<Rightarrow> pyerr + (string \<rightharpoonup> string)" where
  "alias_under marker key v d =
     (if py_in marker key then ebind (py_index (py_split marker key) 1) (\<lambda>k. Inr (d(k \<mapsto> v)))
      else Inr d)"

definition alias_step ::
  "(string \<rightharpoonup> string) \<Rightarrow> string \<times> string \<Rightarrow> pyerr + (string \<rightharpoonup> string)" where
  "alias_step d kv =
     (case kv of (key, v) \<Rightarrow>
        ebind (alias_under ''unavco.'' key v (d(key \<mapsto> v))) (alias_under ''hdfEos5.'' key v))"

fun alias_loop ::
  "(string \<rightharpoonup> string) \<Rightarrow> (string \<times> string) list \<Rightarrow> pyerr + (string \<rightharpoonup> string)" where
  "alias_loop d [] = Inr d"
| "alias_loop d (kv # rest) = ebind (alias_step d kv) (\<lambda>d'. alias_loop d' rest)"

text \<open>The well-known-text ring both footprints are written as (lines 177 and 243).\<close>

definition wkt_polygon :: "string list \<Rightarrow> string list \<Rightarrow> string" where
  "wkt_polygon lons lats =
     ''POLYGON(('' @ py_join '','' (map (\<lambda>(lon, lat). lon @ '' '' @ lat) (zip lons lats)) @ ''))''"

text \<open>
  The body of \<^verbatim>\<open>metadata_pysar2unavco\<close> follows the three blocks the source marks
  with comments: required metadata (lines 129 to 180), recommended metadata (lines 182
  to 230) and insarmaps metadata (lines 232 to 246). \<open>utcnow\<close> is the date that
  \<^verbatim>\<open>datetime.utcnow()\<close> reads from the clock.
\<close>

definition required_metadata ::
  "(string \<rightharpoonup> string) \<Rightarrow> string list \<Rightarrow> date \<Rightarrow> pyerr + (string \<rightharpoonup> 'f pyval)" where
  "required_metadata pysar_meta_dict dateList utcnow =
     (let u = Map.empty(''mission'' \<mapsto>
                (case get_mission_name pysar_meta_dict of None \<Rightarrow> PNone | Some s \<Rightarrow> PStr s)) in
      ebind (getitem pysar_meta_dict ''beam_mode'') (\<lambda>beam_mode.
      let u = u(''beam_mode'' \<mapsto> PStr beam_mode);
          u = u(''beam_swath'' \<mapsto>
                PInt (try_except (ebind (getitem pysar_meta_dict ''beam_swath'') int_of_str) 0)) in
      ebind (ebind (getitem pysar_meta_dict ''relative_orbit'') int_of_str) (\<lambda>relative_orbit.
      let u = u(''relative_orbit'' \<mapsto> PInt relative_orbit);
          u = u(''processing_type'' \<mapsto>
                PStr (try_except (getitem pysar_meta_dict ''processing_type'') ''LOS_TIMESERIES'')) in
      ebind (ebind (py_index dateList 0) (strptime [])) (\<lambda>first.
      let u = u(''first_date'' \<mapsto> PStr (isoformat10 first)) in
      ebind (ebind (py_index dateList (- 1)) (strptime [])) (\<lambda>last.
      let u = u(''last_date'' \<mapsto> PStr (isoformat10 last)) in
      ebind (getitem pysar_meta_dict ''LON_REF1'') (\<lambda>lon1.
      ebind (getitem pysar_meta_dict ''LON_REF3'') (\<lambda>lon3.
      ebind (getitem pysar_meta_dict ''LON_REF4'') (\<lambda>lon4.
      ebind (getitem pysar_meta_dict ''LON_REF2'') (\<lambda>lon2.
      let lons = [lon1, lon3, lon4, lon2, lon1] in
      ebind (getitem pysar_meta_dict ''LAT_REF1'') (\<lambda>lat1.
      ebind (getitem pysar_meta_dict ''LAT_REF3'') (\<lambda>lat3.
      ebind (getitem pysar_meta_dict ''LAT_REF4'') (\<lambda>lat4.
      ebind (getitem pysar_meta_dict ''LAT_REF2'') (\<lambda>lat2.
      let lats = [lat1, lat3, lat4, lat2, lat1];
          u = u(''scene_footprint'' \<mapsto> PStr (wkt_polygon lons lats));
          u = u(''history'' \<mapsto> PStr (isoformat10 utcnow))
      in Inr u)))))))))))))"

definition recommended_metadata ::
  "'f float_ops \<Rightarrow> (string \<rightharpoonup> string) \<Rightarrow> (string \<rightharpoonup> 'f pyval) \<Rightarrow> pyerr + (string \<rightharpoonup> 'f pyval)" where
  "recommended_metadata F pysar_meta_dict u =
     ebind (case pysar_meta_dict ''frame'' of
              Some s \<Rightarrow> int_of_str s
            | None \<Rightarrow> (case pysar_meta_dict ''first_frame'' of
                         Some s \<Rightarrow> int_of_str s
                       | None \<Rightarrow> Inr 0)) (\<lambda>frame.
     let u = u(''frame'' \<mapsto> PInt frame);
         u = try_set u ''atmos_correct_method'' (emap PStr (getitem pysar_meta_dict ''atmos_correct_method''));
         u = u(''post_processing_method'' \<mapsto>
               PStr (try_except (getitem pysar_meta_dict ''post_processing_method'') ''PYSAR''));
         u = try_set u ''processing_dem'' (emap PStr (getitem pysar_meta_dict ''processing_dem''));
         u = try_set u ''unwrap_method'' (emap PStr (getitem pysar_meta_dict ''unwrap_method''));
         u = try_set u ''flight_direction''
               (ebind (getitem pysar_meta_dict ''ORBIT_DIRECTION'') (\<lambda>s.
                emap (\<lambda>c. PStr (py_upper [c])) (py_index s 0))) in
     ebind (getitem pysar_meta_dict ''ANTENNA_SIDE'') (\<lambda>side.
     let u = u(''look_direction'' \<mapsto> PStr (if side = ''-1'' then ''R'' else ''L''));
         u = try_set u ''polarization'' (emap PStr (getitem pysar_meta_dict ''POLARIZATION''));
         u = try_set u ''prf'' (emap PFloat (ebind (getitem pysar_meta_dict ''PRF'') (float_of_str F)));
         u = try_set u ''wavelength''
               (emap PFloat (ebind (getitem pysar_meta_dict ''WAVELENGTH'') (float_of_str F)))
     in Inr u))"

definition insarmaps_metadata ::
  "'f float_ops \<Rightarrow> (string \<rightharpoonup> string) \<Rightarrow> (string \<rightharpoonup> 'f pyval) \<Rightarrow> pyerr + (string \<rightharpoonup> 'f pyval)" where
  "insarmaps_metadata F pysar_meta_dict u =
     (if pysar_meta_dict ''X_FIRST'' \<noteq> None then
        ebind (ebind (getitem pysar_meta_dict ''X_FIRST'') (float_of_str F)) (\<lambda>lon0.
        ebind (ebind (getitem pysar_meta_dict ''Y_FIRST'') (float_of_str F)) (\<lambda>lat0.
        ebind (ebind (getitem pysar_meta_dict ''X_STEP'') (float_of_str F)) (\<lambda>x_step.
        ebind (ebind (getitem pysar_meta_dict ''WIDTH'') int_of_str) (\<lambda>width.
        ebind (float_times_int F x_step width) (\<lambda>dx.
        let lon1 = float_add F lon0 dx in
        ebind (ebind (getitem pysar_meta_dict ''Y_STEP'') (float_of_str F)) (\<lambda>y_step.
        ebind (ebind (getitem pysar_meta_dict ''LENGTH'') int_of_str) (\<lambda>length.
        ebind (float_times_int F y_step length) (\<lambda>dy.
        let lat1 = float_add F lat0 dy;
            lons = map (float_str F) [lon0, lon1, lon1, lon0, lon0];
            lats = map (float_str F) [lat0, lat0, lat1, lat1, lat0]
        in Inr (u(''data_footprint'' \<mapsto> PStr (wkt_polygon lons lats)))))))))))
      else Inr u)"

definition metadata_pysar2unavco ::
  "'f float_ops \<Rightarrow> (string \<times> string) list \<Rightarrow> string list \<Rightarrow> date \<Rightarrow> pyerr + (string \<rightharpoonup> 'f pyval)" where
  "metadata_pysar2unavco F pysar_meta_dict_in dateList utcnow =
     ebind (alias_loop Map.empty pysar_meta_dict_in) (\<lambda>pysar_meta_dict.
     ebind (required_metadata pysar_meta_dict dateList utcnow) (\<lambda>u.
     ebind (recommended_metadata F pysar_meta_dict u) (insarmaps_metadata F pysar_meta_dict)))"

text \<open>One field of a result, for statements about concrete inputs.\<close>

definition result_field :: "'e + (string \<rightharpoonup> 'v) \<Rightarrow> string \<Rightarrow> 'e + 'v option" where
  "result_field r k = emap (\<lambda>u. u k) r"

text \<open>
  What the aliasing loop computes, as a function: \<open>alias_targets key\<close> are the keys
  one turn of the loop writes, in the order it writes them, and \<open>pysar_meta_dict_of\<close>
  is the dictionary after the loop (shown equal to the loop's result below). The
  statements about the translator read the aliased dictionary through it.
\<close>

definition alias_targets :: "string \<Rightarrow> string list" where
  "alias_targets key =
     key # (if py_in ''unavco.'' key then [py_split ''unavco.'' key ! 1] else [])
         @ (if py_in ''hdfEos5.'' key then [py_split ''hdfEos5.'' key ! 1] else [])"

fun aliased :: "(string \<rightharpoonup> string) \<Rightarrow> (string \<times> string) list \<Rightarrow> (string \<rightharpoonup> string)" where
  "aliased d [] = d"
| "aliased d ((key, v) # rest) = aliased (fold (\<lambda>k m. m(k \<mapsto> v)) (alias_targets key) d) rest"

definition pysar_meta_dict_of :: "(string \<times> string) list \<Rightarrow> (string \<rightharpoonup> string)" where
  "pysar_meta_dict_of pysar_meta_dict_in = aliased Map.empty pysar_meta_dict_in"

text \<open>The keys the specification calls required, and the eight corner keys.\<close>

definition required_keys :: "string list" where
  "required_keys =
     [''mission'', ''beam_mode'', ''beam_swath'', ''relative_orbit'', ''first_date'', ''last_date'',
      ''scene_footprint'', ''history'']"

definition corner_keys :: "string list" where
  "corner_keys =
     [''LON_REF1'', ''LON_REF2'', ''LON_REF3'', ''LON_REF4'',
      ''LAT_REF1'', ''LAT_REF2'', ''LAT_REF3'', ''LAT_REF4'']"

text \<open>The statements of the function after the loop, on the aliased dictionary.\<close>

definition translate_aliased ::
  "'f float_ops \<Rightarrow> (string \<rightharpoonup> string) \<Rightarrow> string list \<Rightarrow> date \<Rightarrow> pyerr + (string \<rightharpoonup> 'f pyval)" where
  "translate_aliased F pysar_meta_dict dateList utcnow =
     ebind (required_metadata pysar_meta_dict dateList utcnow) (\<lambda>u.
     ebind (recommended_metadata F pysar_meta_dict u) (insarmaps_metadata F pysar_meta_dict))"

section \<open>The file name\<close>

text \<open>\<^verbatim>\<open>s.rfind(c)\<close> for a character, and \<^verbatim>\<open>os.path.splitext\<close> of the POSIX
  path module: the extension starts at the last dot of the last path component, unless
  only dots precede it there.\<close>

definition rfind :: "char \<Rightarrow> string \<Rightarrow> int" where
  "rfind c s =
     (if c \<in> set s then int (length s) - 1 - int (length (takeWhile (\<lambda>x. x \<noteq> c) (rev s))) else - 1)"

definition splitext :: "string \<Rightarrow> string \<times> string" where
  "splitext p =
     (let sepIndex = rfind (CHR ''/'') p; dotIndex = rfind (CHR ''.'') p in
      if dotIndex > sepIndex \<and>
         list_ex (\<lambda>c. c \<noteq> CHR ''.'') (take (nat (dotIndex - (sepIndex + 1))) (drop (nat (sepIndex + 1)) p))
      then (take (nat dotIndex) p, drop (nat dotIndex) p)
      else (p, []))"

text \<open>\<^verbatim>\<open>datetime.strptime(metadata[k], '%Y-%m-%d')\<close>.\<close>

definition date_item :: "(string \<rightharpoonup> 'f pyval) \<Rightarrow> string \<Rightarrow> pyerr + date" where
  "date_item metadata k = ebind (ebind (getitem metadata k) as_str) (strptime ''-'')"

text \<open>\<^verbatim>\<open>round(x*1e3)\<close>.\<close>

definition round_milli :: "'f float_ops \<Rightarrow> 'f \<Rightarrow> pyerr + int" where
  "round_milli F x = float_round F (float_mul F x (float_1e3 F))"

text \<open>\<^verbatim>\<open>get_output_filename(metadata, update_mode, subset_mode)\<close>, lines 268 to 318.\<close>

definition get_output_filename ::
  "'f float_ops \<Rightarrow> (string \<rightharpoonup> 'f pyval) \<Rightarrow> bool \<Rightarrow> bool \<Rightarrow> pyerr + string" where
  "get_output_filename F metadata update_mode subset_mode =
     ebind (getitem metadata ''mission'') (\<lambda>SAT.
     ebind (getitem metadata ''beam_mode'') (\<lambda>SW.
     ebind (getitem metadata ''beam_swath'') (\<lambda>beam_swath.
     ebind (if py_bool F beam_swath then emap (\<lambda>s. PStr (s @ py_str F beam_swath)) (as_str SW)
            else Inr SW) (\<lambda>SW.
     ebind (ebind (getitem metadata ''relative_orbit'') (py_int F)) (\<lambda>relative_orbit.
     let RELORB = fmt_0d 3 relative_orbit in
     ebind (ebind (getitem metadata ''frame'') (py_int F)) (\<lambda>frame1.
     ebind (case metadata ''first_frame'' of Some v \<Rightarrow> py_int F v | None \<Rightarrow> Inr frame1) (\<lambda>frame1.
     let FRAME = fmt_0d 4 frame1 in
     ebind (case metadata ''last_frame'' of
              Some v \<Rightarrow> emap (\<lambda>frame2. if frame2 \<noteq> frame1 then FRAME @ ''_'' @ fmt_0d 4 frame2 else FRAME)
                             (py_int F v)
            | None \<Rightarrow> Inr FRAME) (\<lambda>FRAME.
     ebind (date_item metadata ''first_date'') (\<lambda>date1.
     let DATE1 = strftime_Ymd date1 in
     ebind (date_item metadata ''last_date'') (\<lambda>date2.
     let DATE2 = strftime_Ymd date2;
         DATE2 = (if update_mode then ''XXXXXXXX'' else DATE2) in
     ebind (as_str SAT) (\<lambda>SAT.
     ebind (as_str SW) (\<lambda>SW.
     let outName = SAT @ ''_'' @ SW @ ''_'' @ RELORB @ ''_'' @ FRAME @ ''_'' @ DATE1 @ ''_'' @ DATE2 @ ''.he5'' in
     if subset_mode then
       ebind (ebind (getitem metadata ''Y_FIRST'') (py_float F)) (\<lambda>lat1.
       ebind (ebind (getitem metadata ''X_FIRST'') (py_float F)) (\<lambda>lon0.
       ebind (ebind (getitem metadata ''Y_STEP'') (py_float F)) (\<lambda>y_step.
       ebind (ebind (getitem metadata ''LENGTH'') (py_int F)) (\<lambda>length.
       ebind (float_times_int F y_step length) (\<lambda>dy.
       let lat0 = float_add F lat1 dy in
       ebind (ebind (getitem metadata ''X_STEP'') (py_float F)) (\<lambda>x_step.
       ebind (ebind (getitem metadata ''WIDTH'') (py_int F)) (\<lambda>width.
       ebind (float_times_int F x_step width) (\<lambda>dx.
       let lon1 = float_add F lon0 dx in
       ebind (emap (\<lambda>n. ''N'' @ fmt_0d 5 n) (round_milli F lat0)) (\<lambda>lat0Str.
       ebind (emap (\<lambda>n. ''N'' @ fmt_0d 5 n) (round_milli F lat1)) (\<lambda>lat1Str.
       ebind (emap (\<lambda>n. ''E'' @ fmt_0d 6 n) (round_milli F lon0)) (\<lambda>lon0Str.
       ebind (emap (\<lambda>n. ''E'' @ fmt_0d 6 n) (round_milli F lon1)) (\<lambda>lon1Str.
       ebind (if float_lt F lat0 (float_0 F)
              then emap (\<lambda>n. ''S'' @ fmt_0d 5 n) (round_milli F (float_abs F lat0))
              else Inr lat0Str) (\<lambda>lat0Str.
       ebind (if float_lt F lat1 (float_0 F)
              then emap (\<lambda>n. ''S'' @ fmt_0d 5 n) (round_milli F (float_abs F lat1))
              else Inr lat1Str) (\<lambda>lat1Str.
       ebind (if float_lt F lon0 (float_0 F)
              then emap (\<lambda>n. ''W'' @ fmt_0d 6 n) (round_milli F (float_abs F lon0))
              else Inr lon0Str) (\<lambda>lon0Str.
       ebind (if float_lt F lon1 (float_0 F)
              then emap (\<lambda>n. ''W'' @ fmt_0d 6 n) (round_milli F (float_abs F lon1))
              else Inr lon1Str) (\<lambda>lon1Str.
       let SUB = ''_'' @ lat0Str @ ''_'' @ lat1Str @ ''_'' @ lon0Str @ ''_'' @ lon1Str
       in Inr (fst (splitext outName) @ SUB @ snd (splitext outName))))))))))))))))))
     else Inr outName))))))))))))"

text \<open>
  \<^verbatim>\<open>prep_metadata\<close>, lines 251 to 265, on what the time-series object provides (its
  attributes and its date list): the attributes, overridden by the translated metadata,
  with the file type added.
\<close>

definition prep_metadata ::
  "'f float_ops \<Rightarrow> (string \<times> string) list \<Rightarrow> string list \<Rightarrow> date \<Rightarrow> pyerr + (string \<rightharpoonup> 'f pyval)" where
  "prep_metadata F ts_metadata ts_dateList utcnow =
     ebind (metadata_pysar2unavco F ts_metadata ts_dateList utcnow) (\<lambda>unavco_meta_dict.
     let meta_dict = map_option PStr \<circ> map_of ts_metadata;
         meta_dict = meta_dict ++ unavco_meta_dict;
         meta_dict = meta_dict(''FILE_TYPE'' \<mapsto> PStr ''HDFEOS'')
     in Inr meta_dict)"

section \<open>IEEE 754 binary64, the float of CPython\<close>

text \<open>
  A finite double is the rational it denotes (\<open>Fin 0\<close> is \<^verbatim>\<open>0.0\<close>), with the
  negative zero, the two infinities and the not-a-number beside it. Every operation
  computes the exact result and rounds it once, to the nearest double, ties to the even
  significand: 53 bits, exponents down to the subnormal quantum \<open>2\<^sup>-\<^sup>1\<^sup>0\<^sup>7\<^sup>4\<close>,
  overflow to infinity from \<open>2\<^sup>1\<^sup>0\<^sup>2\<^sup>4\<close>.
\<close>

datatype binary64 = Fin rat | NegZero | PosInf | NegInf | NaN

definition pow2 :: "int \<Rightarrow> rat" where
  "pow2 e = (if 0 \<le> e then 2 ^ nat e else 1 / 2 ^ nat (- e))"

definition pow10 :: "int \<Rightarrow> rat" where
  "pow10 e = (if 0 \<le> e then 10 ^ nat e else 1 / 10 ^ nat (- e))"

fun bitlen :: "nat \<Rightarrow> nat" where
  "bitlen n = (if n = 0 then 0 else Suc (bitlen (n div 2)))"

declare bitlen.simps [simp del]

text \<open>\<open>\<lfloor>log\<^sub>2 a\<rfloor>\<close> and \<open>\<lfloor>log\<^sub>1\<^sub>0 a\<rfloor>\<close> of a positive rational: from the length of
  its integer part when \<open>1 \<le> a\<close>, from that of its reciprocal otherwise.\<close>

definition ndigits :: "nat \<Rightarrow> nat" where
  "ndigits n = (if n = 0 then 0 else length (nat_digits n))"

definition ilog2 :: "rat \<Rightarrow> int" where
  "ilog2 a =
     (if 1 \<le> a then int (bitlen (nat \<lfloor>a\<rfloor>)) - 1 else - int (bitlen (nat (\<lceil>1 / a\<rceil> - 1))))"

definition ilog10 :: "rat \<Rightarrow> int" where
  "ilog10 a =
     (if 1 \<le> a then int (ndigits (nat \<lfloor>a\<rfloor>)) - 1 else - int (ndigits (nat (\<lceil>1 / a\<rceil> - 1))))"

definition round_half_even :: "rat \<Rightarrow> int" where
  "round_half_even x =
     (let f = \<lfloor>x\<rfloor>; r = x - of_int f
      in if r < 1 / 2 then f else if 1 / 2 < r then f + 1 else if even f then f else f + 1)"

definition b64_round :: "rat \<Rightarrow> binary64" where
  "b64_round x =
     (if x = 0 then Fin 0
      else
        let a = \<bar>x\<bar>;
            q = pow2 (max (ilog2 a - 52) (- 1074));
            r = of_int (round_half_even (a / q)) * q
        in if pow2 1024 \<le> r then (if x < 0 then NegInf else PosInf)
           else if r = 0 then (if x < 0 then NegZero else Fin 0)
           else Fin (if x < 0 then - r else r))"

definition b64_val :: "binary64 \<Rightarrow> rat" where
  "b64_val x = (case x of Fin q \<Rightarrow> q | _ \<Rightarrow> 0)"

definition b64_signbit :: "binary64 \<Rightarrow> bool" where
  "b64_signbit x = (case x of Fin q \<Rightarrow> q < 0 | NegZero \<Rightarrow> True | NegInf \<Rightarrow> True | _ \<Rightarrow> False)"

definition b64_is_inf :: "binary64 \<Rightarrow> bool" where
  "b64_is_inf x = (x = PosInf \<or> x = NegInf)"

definition b64_is_zero :: "binary64 \<Rightarrow> bool" where
  "b64_is_zero x = (x = Fin 0 \<or> x = NegZero)"

definition b64_add :: "binary64 \<Rightarrow> binary64 \<Rightarrow> binary64" where
  "b64_add x y =
     (if x = NaN \<or> y = NaN then NaN
      else if b64_is_inf x then (if b64_is_inf y \<and> y \<noteq> x then NaN else x)
      else if b64_is_inf y then y
      else if x = NegZero \<and> y = NegZero then NegZero
      else b64_round (b64_val x + b64_val y))"

definition b64_mul :: "binary64 \<Rightarrow> binary64 \<Rightarrow> binary64" where
  "b64_mul x y =
     (let neg = (b64_signbit x \<noteq> b64_signbit y) in
      if x = NaN \<or> y = NaN then NaN
      else if b64_is_inf x \<or> b64_is_inf y then
        (if b64_is_zero x \<or> b64_is_zero y then NaN else if neg then NegInf else PosInf)
      else if b64_is_zero x \<or> b64_is_zero y then (if neg then NegZero else Fin 0)
      else b64_round (b64_val x * b64_val y))"

definition b64_lt :: "binary64 \<Rightarrow> binary64 \<Rightarrow> bool" where
  "b64_lt x y =
     (if x = NaN \<or> y = NaN then False
      else if x = PosInf \<or> y = NegInf then False
      else if x = NegInf \<or> y = PosInf then True
      else b64_val x < b64_val y)"

definition b64_abs :: "binary64 \<Rightarrow> binary64" where
  "b64_abs x = (case x of Fin q \<Rightarrow> Fin \<bar>q\<bar> | NegZero \<Rightarrow> Fin 0 | NegInf \<Rightarrow> PosInf | _ \<Rightarrow> x)"

definition b64_bool :: "binary64 \<Rightarrow> bool" where
  "b64_bool x = (\<not> b64_is_zero x)"

text \<open>\<^verbatim>\<open>float(n)\<close> of an int, \<^verbatim>\<open>int(x)\<close> and \<^verbatim>\<open>round(x)\<close> of a float.\<close>

definition b64_of_int :: "int \<Rightarrow> pyerr + binary64" where
  "b64_of_int n = (let y = b64_round (of_int n) in if b64_is_inf y then Inl OverflowError else Inr y)"

definition b64_to_int :: "binary64 \<Rightarrow> pyerr + int" where
  "b64_to_int x =
     (if x = NaN then Inl ValueError
      else if b64_is_inf x then Inl OverflowError
      else Inr (if b64_val x < 0 then - \<lfloor>- b64_val x\<rfloor> else \<lfloor>b64_val x\<rfloor>))"

definition b64_pyround :: "binary64 \<Rightarrow> pyerr + int" where
  "b64_pyround x =
     (if x = NaN then Inl ValueError
      else if b64_is_inf x then Inl OverflowError
      else Inr (round_half_even (b64_val x)))"

text \<open>\<^verbatim>\<open>float(s)\<close> of a string: white space, a sign, then \<^verbatim>\<open>inf\<close>,
  \<^verbatim>\<open>infinity\<close>, \<^verbatim>\<open>nan\<close> or a decimal numeral with an optional exponent.\<close>

definition mantissa :: "string \<Rightarrow> (string \<times> string \<times> string) option" where
  "mantissa u =
     (case digitpart u of
        Some (ds, r) \<Rightarrow>
          (case r of
             c # r' \<Rightarrow>
               if c = CHR ''.'' then
                 (case digitpart r' of Some (fs, r'') \<Rightarrow> Some (ds, fs, r'') | None \<Rightarrow> Some (ds, [], r'))
               else Some (ds, [], r)
           | [] \<Rightarrow> Some (ds, [], []))
      | None \<Rightarrow>
          (case u of
             c # r' \<Rightarrow>
               if c = CHR ''.'' then
                 (case digitpart r' of Some (fs, r'') \<Rightarrow> Some ([], fs, r'') | None \<Rightarrow> None)
               else None
           | [] \<Rightarrow> None))"

definition exp_part :: "string \<Rightarrow> (int \<times> string) option" where
  "exp_part s =
     (case s of
        [] \<Rightarrow> Some (0, [])
      | c # r \<Rightarrow>
          if c = CHR ''e'' \<or> c = CHR ''E'' then
            (case take_sign r of (neg, r') \<Rightarrow>
               (case digitpart r' of
                  Some (ds, r'') \<Rightarrow> Some (if neg then - int (nat_of_digits ds) else int (nat_of_digits ds), r'')
                | None \<Rightarrow> None))
          else Some (0, c # r))"

definition b64_of_decimal :: "bool \<Rightarrow> string \<Rightarrow> string \<Rightarrow> int \<Rightarrow> binary64" where
  "b64_of_decimal neg ds fs e =
     (let v = of_nat (nat_of_digits (ds @ fs)) * pow10 (e - int (length fs))
      in if v = 0 then (if neg then NegZero else Fin 0) else b64_round (if neg then - v else v))"

definition b64_of_str :: "string \<Rightarrow> pyerr + binary64" where
  "b64_of_str s =
     (case take_sign (py_strip s) of (neg, u) \<Rightarrow>
        if py_lower u = ''inf'' \<or> py_lower u = ''infinity'' then Inr (if neg then NegInf else PosInf)
        else if py_lower u = ''nan'' then Inr NaN
        else
          (case mantissa u of
             None \<Rightarrow> Inl ValueError
           | Some (ds, fs, r) \<Rightarrow>
               (case exp_part r of
                  Some (e, []) \<Rightarrow> Inr (b64_of_decimal neg ds fs e)
                | _ \<Rightarrow> Inl ValueError)))"

text \<open>
  \<^verbatim>\<open>repr(x)\<close>: the shortest decimal numeral that reads back as \<open>x\<close>, the nearest
  to \<open>x\<close> among the shortest. \<open>shortest_at a k\<close> looks among the numerals of \<open>k\<close>
  significant digits; seventeen digits always suffice.
\<close>

definition shortest_at :: "rat \<Rightarrow> nat \<Rightarrow> (int \<times> int) option" where
  "shortest_at a k =
     (let e = ilog10 a - int k + 1;
          lo = \<lfloor>a / pow10 e\<rfloor>;
          ok = (\<lambda>c. b64_round (of_int c * pow10 e) = Fin a);
          d = a / pow10 e - of_int lo
      in if ok lo \<and> ok (lo + 1) then
           Some (if d < 1 / 2 \<or> (d = 1 / 2 \<and> even lo) then lo else lo + 1, e)
         else if ok lo then Some (lo, e)
         else if ok (lo + 1) then Some (lo + 1, e)
         else None)"

fun shortest_search :: "rat \<Rightarrow> nat list \<Rightarrow> (int \<times> int) option" where
  "shortest_search a [] = None"
| "shortest_search a (k # ks) =
     (case shortest_at a k of Some r \<Rightarrow> Some r | None \<Rightarrow> shortest_search a ks)"

definition shortest_digits :: "rat \<Rightarrow> string \<times> int" where
  "shortest_digits a =
     (case shortest_search a [1..<18] of
        None \<Rightarrow> ([], 0)
      | Some (c, e) \<Rightarrow>
          (let ds = nat_digits (nat c)
           in (rev (dropWhile (\<lambda>x. x = CHR ''0'') (rev ds)), int (length ds) + e)))"

definition repr_finite :: "rat \<Rightarrow> string" where
  "repr_finite a =
     (case shortest_digits a of (ds, decpt) \<Rightarrow>
        if - 4 < decpt \<and> decpt \<le> 16 then
          (if decpt \<le> 0 then ''0.'' @ replicate (nat (- decpt)) (CHR ''0'') @ ds
           else if int (length ds) \<le> decpt then ds @ replicate (nat decpt - length ds) (CHR ''0'') @ ''.0''
           else take (nat decpt) ds @ ''.'' @ drop (nat decpt) ds)
        else
          take 1 ds @ (if 1 < length ds then ''.'' @ drop 1 ds else [])
          @ ''e'' @ (if decpt - 1 < 0 then ''-'' else ''+'') @ zfill 2 (nat_digits (nat \<bar>decpt - 1\<bar>)))"

definition b64_str :: "binary64 \<Rightarrow> string" where
  "b64_str x =
     (case x of
        NaN \<Rightarrow> ''nan'' | PosInf \<Rightarrow> ''inf'' | NegInf \<Rightarrow> ''-inf'' | NegZero \<Rightarrow> ''-0.0''
      | Fin q \<Rightarrow> if q = 0 then ''0.0'' else if q < 0 then ''-'' @ repr_finite (- q) else repr_finite q)"

definition binary64 :: "binary64 float_ops" where
  "binary64 =
     \<lparr> float_of_str = b64_of_str, float_of_int = b64_of_int, int_of_float = b64_to_int,
       float_round = b64_pyround, float_add = b64_add, float_mul = b64_mul, float_lt = b64_lt,
       float_abs = b64_abs, float_bool = b64_bool, float_str = b64_str,
       float_1e3 = Fin 1000, float_0 = Fin 0 \<rparr>"

section \<open>Concrete inputs\<close>

text \<open>
  A Sentinel-1 scene without geocoding: the attributes a radar-coordinate time series
  carries, its date list, and a clock reading. No \<^verbatim>\<open>beam_swath\<close> is recorded.
\<close>

definition scene_attributes :: "(string \<times> string) list" where
  "scene_attributes =
     [(''PLATFORM'', ''Sentinel-1''), (''beam_mode'', ''IW''), (''relative_orbit'', ''5''),
      (''frame'', ''117''), (''ANTENNA_SIDE'', ''-1''),
      (''LON_REF1'', ''130.1''), (''LON_REF2'', ''130.9''), (''LON_REF3'', ''130.2''),
      (''LON_REF4'', ''131.0''), (''LAT_REF1'', ''31.5''), (''LAT_REF2'', ''31.6''),
      (''LAT_REF3'', ''32.4''), (''LAT_REF4'', ''32.5'')]"

definition scene_dates :: "string list" where
  "scene_dates = [''20150101'', ''20160612'', ''20181231'']"

definition scene_clock :: date where
  "scene_clock = Date 2019 2 14"

definition scene_metadata :: "string \<rightharpoonup> binary64 pyval" where
  "scene_metadata =
     [''mission'' \<mapsto> PStr ''S1'', ''beam_mode'' \<mapsto> PStr ''IW'', ''beam_swath'' \<mapsto> PInt 0,
      ''relative_orbit'' \<mapsto> PInt 5, ''processing_type'' \<mapsto> PStr ''LOS_TIMESERIES'',
      ''first_date'' \<mapsto> PStr ''2015-01-01'', ''last_date'' \<mapsto> PStr ''2018-12-31'',
      ''scene_footprint'' \<mapsto> PStr ''POLYGON((130.1 31.5,130.2 32.4,131.0 32.5,130.9 31.6,130.1 31.5))'',
      ''history'' \<mapsto> PStr ''2019-02-14'', ''frame'' \<mapsto> PInt 117,
      ''post_processing_method'' \<mapsto> PStr ''PYSAR'', ''look_direction'' \<mapsto> PStr ''R'']"

text \<open>The scene with an override of the relative orbit, iterated before the base key and
  after it, and what the translator returns for the latter.\<close>

definition override_first :: "(string \<times> string) list" where
  "override_first = (''hdfEos5.relative_orbit'', ''7'') # scene_attributes"

definition override_last :: "(string \<times> string) list" where
  "override_last = scene_attributes @ [(''hdfEos5.relative_orbit'', ''7'')]"

definition override_metadata :: "string \<rightharpoonup> binary64 pyval" where
  "override_metadata =
     [''mission'' \<mapsto> PStr ''S1'', ''beam_mode'' \<mapsto> PStr ''IW'', ''beam_swath'' \<mapsto> PInt 0,
      ''relative_orbit'' \<mapsto> PInt 7, ''processing_type'' \<mapsto> PStr ''LOS_TIMESERIES'',
      ''first_date'' \<mapsto> PStr ''2015-01-01'', ''last_date'' \<mapsto> PStr ''2018-12-31'',
      ''scene_footprint'' \<mapsto> PStr ''POLYGON((130.1 31.5,130.2 32.4,131.0 32.5,130.9 31.6,130.1 31.5))'',
      ''history'' \<mapsto> PStr ''2019-02-14'', ''frame'' \<mapsto> PInt 117,
      ''post_processing_method'' \<mapsto> PStr ''PYSAR'', ''look_direction'' \<mapsto> PStr ''R'']"


section \<open>Mission classification: the table holds rule by rule\<close>

lemma startswithE: "startswith s p \<Longrightarrow> \<exists>t. s = p @ t"
  unfolding startswith_def by (metis append_take_drop_id)

lemma lower_char_cases: "lower_char x = x \<or> lower_char x \<in> set ascii_lower"
  unfolding lower_char_def
  by (auto split: option.splits dest!: map_of_SomeD set_zip_rightD)

lemma lower_char_fix: "x \<notin> set ascii_upper \<Longrightarrow> lower_char x = x"
proof -
  assume a: "x \<notin> set ascii_upper"
  have "map fst (zip ascii_upper ascii_lower) = ascii_upper"
    by (simp add: ascii_upper_def ascii_lower_def)
  then have "map_of (zip ascii_upper ascii_lower) x = None"
    using a by (metis map_of_eq_None_iff set_map)
  then show ?thesis by (simp add: lower_char_def)
qed

lemma lower_char_digit:
  assumes "c \<in> set ''0123456789''"
  shows "lower_char x = c \<longleftrightarrow> x = c"
proof
  assume h: "lower_char x = c"
  have "c \<notin> set ascii_lower" using assms by (auto simp: ascii_lower_def)
  with h lower_char_cases[of x] show "x = c" by auto
next
  assume "x = c"
  moreover have "c \<notin> set ascii_upper" using assms by (auto simp: ascii_upper_def)
  ultimately show "lower_char x = c" by (simp add: lower_char_fix)
qed

lemma endswith1: "endswith s [c] \<longleftrightarrow> (s \<noteq> [] \<and> last s = c)"
  unfolding endswith_def 
  by (cases s rule: rev_cases) auto

lemma endswith_lower_digit:
  assumes "c \<in> set ''0123456789''"
  shows "endswith (py_lower s) [c] = endswith s [c]"
proof (cases s rule: rev_cases)
  case Nil
  then show ?thesis by (simp add: py_lower_def endswith_def)
next
  case (snoc ys y)
  then show ?thesis using lower_char_digit[OF assms, of y]
    by (simp add: endswith1 py_lower_def)
qed


lemma get_mission_name_indicator:
  "mission_indicator m = Some raw \<Longrightarrow> get_mission_name m = get_mission_name [''mission'' \<mapsto> raw]"
  by (cases "m ''mission''") (simp_all add: mission_indicator_def get_mission_name_def split del: if_split)

lemma get_mission_name_no_indicator:
  "mission_indicator m = None \<Longrightarrow> get_mission_name m = None"
  by (cases "m ''mission''") (simp_all add: mission_indicator_def get_mission_name_def split del: if_split)

lemma classify_plain:
  assumes "startswith (py_lower raw) p"
    and "(p, c) \<in> set [(''ers'', ''ERS''), (''env'', ''ENV''), (''asar'', ''ENV''), (''s1'', ''S1''),
           (''sen'', ''S1''), (''csk'', ''CSK''), (''cos'', ''CSK''), (''tsx'', ''TSX''), (''tdx'', ''TSX''),
           (''terra'', ''TSX''), (''tandem'', ''TSX''), (''jers'', ''JERS'')]"
  shows "get_mission_name [''mission'' \<mapsto> raw] = Some c"
proof -
  from assms(1) obtain t where e: "py_lower raw = p @ t"
    using startswithE by blast
  from assms(2) show ?thesis
    unfolding get_mission_name_def list.set insert_iff empty_iff prod.inject
    using e by (elim disjE conjE FalseE; simp add: startswith_def startswith_any_def)
qed

lemma classify_rs:
  assumes "startswith (py_lower raw) p" and "p \<in> set [''rs'', ''rsat'', ''radarsat'']"
  shows "get_mission_name [''mission'' \<mapsto> raw] = Some (if endswith raw ''1'' then ''RS1'' else ''RS2'')"
proof -
  from assms(1) obtain t where e: "py_lower raw = p @ t"
    using startswithE by blast
  have d: "endswith (p @ t) ''1'' = endswith raw ''1''"
    using endswith_lower_digit[of "CHR ''1''" raw] by (simp add: e)
  from assms(2) show ?thesis
    unfolding get_mission_name_def list.set insert_iff empty_iff
    using e d by (elim disjE FalseE; simp add: startswith_def startswith_any_def)
qed

lemma classify_alos:
  assumes "startswith (py_lower raw) p" and "p \<in> set [''alos'', ''palsar'']"
  shows "get_mission_name [''mission'' \<mapsto> raw] = Some (if endswith raw ''2'' then ''ALOS2'' else ''ALOS'')"
proof -
  from assms(1) obtain t where e: "py_lower raw = p @ t"
    using startswithE by blast
  have d: "endswith (p @ t) ''2'' = endswith raw ''2''"
    using endswith_lower_digit[of "CHR ''2''" raw] by (simp add: e)
  from assms(2) show ?thesis
    unfolding get_mission_name_def list.set insert_iff empty_iff
    using e d by (elim disjE FalseE; simp add: startswith_def startswith_any_def)
qed

lemma classify_none:
  assumes "\<not> startswith_any (py_lower raw) mission_prefixes"
  shows "get_mission_name [''mission'' \<mapsto> raw] = None"
  using assms unfolding get_mission_name_def mission_prefixes_def startswith_any_def
  by simp


text \<open>
  Claim C1. For an attribute map with a mission indicator \<open>raw\<close> (the value of
  \<^verbatim>\<open>mission\<close> if present, else that of \<^verbatim>\<open>PLATFORM\<close>) whose lower-cased form
  starts with a prefix of the fixed table, \<open>get_mission_name\<close> returns the code of that
  prefix, whatever the order of the tests: \<^verbatim>\<open>ers\<close> gives ERS; \<^verbatim>\<open>env\<close>,
  \<^verbatim>\<open>asar\<close> give ENV; \<^verbatim>\<open>s1\<close>, \<^verbatim>\<open>sen\<close> give S1; \<^verbatim>\<open>rs\<close>,
  \<^verbatim>\<open>rsat\<close>, \<^verbatim>\<open>radarsat\<close> give RS1 when the raw value ends in 1 and RS2
  otherwise; \<^verbatim>\<open>csk\<close>, \<^verbatim>\<open>cos\<close> give CSK; \<^verbatim>\<open>tsx\<close>, \<^verbatim>\<open>tdx\<close>,
  \<^verbatim>\<open>terra\<close>, \<^verbatim>\<open>tandem\<close> give TSX; \<^verbatim>\<open>jers\<close> gives JERS; \<^verbatim>\<open>alos\<close>,
  \<^verbatim>\<open>palsar\<close> give ALOS2 when the raw value ends in 2 and ALOS otherwise. An
  indicator that starts with no prefix of the table, and a map with neither key, give
  \<^verbatim>\<open>None\<close>. The function has no raising path (its result type has no error).
\<close>

theorem get_mission_name_table:
  "(case mission_indicator m of
      None \<Rightarrow> get_mission_name m = None
    | Some raw \<Rightarrow>
        (let v = py_lower raw; r = get_mission_name m in
         (startswith v ''ers'' \<longrightarrow> r = Some ''ERS'') \<and>
         (startswith v ''env'' \<or> startswith v ''asar'' \<longrightarrow> r = Some ''ENV'') \<and>
         (startswith v ''s1'' \<or> startswith v ''sen'' \<longrightarrow> r = Some ''S1'') \<and>
         (startswith v ''rs'' \<or> startswith v ''rsat'' \<or> startswith v ''radarsat'' \<longrightarrow>
            r = Some (if endswith raw ''1'' then ''RS1'' else ''RS2'')) \<and>
         (startswith v ''csk'' \<or> startswith v ''cos'' \<longrightarrow> r = Some ''CSK'') \<and>
         (startswith v ''tsx'' \<or> startswith v ''tdx'' \<or> startswith v ''terra'' \<or> startswith v ''tandem''
            \<longrightarrow> r = Some ''TSX'') \<and>
         (startswith v ''jers'' \<longrightarrow> r = Some ''JERS'') \<and>
         (startswith v ''alos'' \<or> startswith v ''palsar'' \<longrightarrow>
            r = Some (if endswith raw ''2'' then ''ALOS2'' else ''ALOS'')) \<and>
         (\<not> startswith_any v mission_prefixes \<longrightarrow> r = None)))"
proof (cases "mission_indicator m")
  case None
  then show ?thesis by (simp add: get_mission_name_no_indicator)
next
  case (Some raw)
  note g = get_mission_name_indicator[OF Some]
  have plain: "\<And>p c. startswith (py_lower raw) p \<Longrightarrow> (p, c) \<in> set [(''ers'', ''ERS''), (''env'', ''ENV''), (''asar'', ''ENV''), (''s1'', ''S1''),
           (''sen'', ''S1''), (''csk'', ''CSK''), (''cos'', ''CSK''), (''tsx'', ''TSX''), (''tdx'', ''TSX''),
           (''terra'', ''TSX''), (''tandem'', ''TSX''), (''jers'', ''JERS'')] \<Longrightarrow> get_mission_name m = Some c"
    using classify_plain g by simp
  have rs: "\<And>p. startswith (py_lower raw) p \<Longrightarrow> p \<in> set [''rs'', ''rsat'', ''radarsat''] \<Longrightarrow>
     get_mission_name m = Some (if endswith raw ''1'' then ''RS1'' else ''RS2'')"
    using classify_rs g by simp
  have alos: "\<And>p. startswith (py_lower raw) p \<Longrightarrow> p \<in> set [''alos'', ''palsar''] \<Longrightarrow>
     get_mission_name m = Some (if endswith raw ''2'' then ''ALOS2'' else ''ALOS'')"
    using classify_alos g by simp
  have none: "\<not> startswith_any (py_lower raw) mission_prefixes \<Longrightarrow> get_mission_name m = None"
    using classify_none g by simp
  show ?thesis
    unfolding Some option.case Let_def
    apply (intro conjI impI)
            apply (rule plain, assumption, simp)
           apply (erule disjE; rule plain, assumption, simp)
          apply (erule disjE; rule plain, assumption, simp)
         apply (elim disjE; rule rs, assumption, simp)
        apply (erule disjE; rule plain, assumption, simp)
       apply (elim disjE; rule plain, assumption, simp)
      apply (rule plain, assumption, simp)
     apply (elim disjE; rule alos, assumption, simp)
    apply (erule none)
    done
qed

theorem get_mission_name_table_witness:
  "mission_indicator [''PLATFORM'' \<mapsto> ''Sentinel-1A''] = Some ''Sentinel-1A'' \<and>
   startswith (py_lower ''Sentinel-1A'') ''sen'' \<and>
   get_mission_name [''PLATFORM'' \<mapsto> ''Sentinel-1A''] = Some ''S1''"
  using get_mission_name_table[of "[''PLATFORM'' \<mapsto> ''Sentinel-1A'']"]
  by (simp add: mission_indicator_def Let_def py_lower_def lower_char_def startswith_def ascii_upper_def ascii_lower_def)

section \<open>The aliasing loop and the three blocks of the translator\<close>

lemma ebind_Inr_iff: "ebind m f = Inr y \<longleftrightarrow> (\<exists>x. m = Inr x \<and> f x = Inr y)"
  by (cases m) auto

lemma ebind_isl: "isl (ebind m f) \<longleftrightarrow> isl m \<or> (\<exists>x. m = Inr x \<and> isl (f x))"
  by (cases m) auto

lemma getitem_Inr_iff: "getitem d k = Inr v \<longleftrightarrow> d k = Some v"
  by (simp add: getitem_def split: option.splits)

lemma getitem_None: "d k = None \<Longrightarrow> getitem d k = Inl (KeyError k)"
  by (simp add: getitem_def)

lemma emap_Inr_iff: "emap g m = Inr y \<longleftrightarrow> (\<exists>x. m = Inr x \<and> y = g x)"
  by (cases m) (auto simp: emap_def)

lemma split_from_nonempty: "split_from sep acc s \<noteq> []"
  by (induction s arbitrary: acc) auto

lemma split_from_two:
  "find_sub sep s \<noteq> None \<Longrightarrow> sep \<noteq> [] \<Longrightarrow> 2 \<le> length (split_from sep acc s)"
proof (induction s arbitrary: acc)
  case Nil
  then show ?case by simp
next
  case (Cons c cs)
  show ?case
  proof (cases "startswith (c # cs) sep")
    case True
    have "1 \<le> length (split_from sep [] (drop (length sep - 1) cs))"
      using split_from_nonempty[of sep "[]" "drop (length sep - 1) cs"]
      by (cases "split_from sep [] (drop (length sep - 1) cs)") auto
    with True show ?thesis by simp
  next
    case False
    with Cons.prems have "find_sub sep cs \<noteq> None" by (auto split: if_splits)
    from Cons.IH[OF this Cons.prems(2)] False show ?thesis by simp
  qed
qed

lemma py_index_1: "2 \<le> length xs \<Longrightarrow> py_index xs 1 = Inr (xs ! 1)"
  by (simp add: py_index_def)

lemma alias_under_eq:
  "marker \<noteq> [] \<Longrightarrow>
   alias_under marker key v d =
     Inr (if py_in marker key then d(py_split marker key ! 1 \<mapsto> v) else d)"
  using split_from_two[of marker key "[]"]
  by (simp add: alias_under_def py_in_def py_split_def py_index_1)

lemma alias_step_eq:
  "alias_step d (key, v) = Inr (fold (\<lambda>k m. m(k \<mapsto> v)) (alias_targets key) d)"
  by (simp add: alias_step_def alias_under_eq alias_targets_def)

lemma alias_loop_aliased: "alias_loop d src = Inr (aliased d src)"
proof (induction src arbitrary: d)
  case Nil
  then show ?case by simp
next
  case (Cons kv src)
  then show ?case by (cases kv) (simp add: alias_step_eq)
qed

lemma metadata_pysar2unavco_aliased:
  "metadata_pysar2unavco F src dl now = translate_aliased F (pysar_meta_dict_of src) dl now"
  by (simp add: metadata_pysar2unavco_def translate_aliased_def alias_loop_aliased pysar_meta_dict_of_def)

lemma fold_upd_other: "t \<notin> set ks \<Longrightarrow> fold (\<lambda>k m. m(k \<mapsto> v)) ks d t = d t"
  by (induction ks arbitrary: d) auto

lemma fold_upd_hit: "t \<in> set ks \<Longrightarrow> fold (\<lambda>k m. m(k \<mapsto> v)) ks d t = Some v"
proof (induction ks arbitrary: d)
  case Nil
  then show ?case by simp
next
  case (Cons k ks)
  show ?case
  proof (cases "t \<in> set ks")
    case True
    then show ?thesis using Cons.IH by simp
  next
    case False
    with Cons.prems have tk: "t = k" by simp
    with False have "k \<notin> set ks" by simp
    then have "fold (\<lambda>k m. m(k \<mapsto> v)) ks (d(k \<mapsto> v)) k = (d(k \<mapsto> v)) k"
      by (rule fold_upd_other)
    with tk show ?thesis by (simp only: List.fold_simps fun_upd_same)
  qed
qed

lemma aliased_untouched:
  "\<forall>kv \<in> set src. t \<notin> set (alias_targets (fst kv)) \<Longrightarrow> aliased d src t = d t"
proof (induction src arbitrary: d)
  case Nil
  then show ?case by simp
next
  case (Cons kv src)
  then show ?case by (cases kv) (simp add: fold_upd_other)
qed

lemma aliased_append: "aliased d (xs @ ys) = aliased (aliased d xs) ys"
  by (induction xs arbitrary: d) auto

lemma aliased_last_writer:
  assumes "t \<in> set (alias_targets key)"
    and "\<forall>kv \<in> set ys. t \<notin> set (alias_targets (fst kv))"
  shows "aliased d (xs @ (key, v) # ys) t = Some v"
  using assms by (simp add: aliased_append aliased_untouched fold_upd_hit)

lemma override_targets: "alias_targets ''hdfEos5.relative_orbit'' = [''hdfEos5.relative_orbit'', ''relative_orbit'']"
  by (simp add: alias_targets_def py_in_def py_split_def startswith_def)

lemma sum_cases_isl: "isl r \<or> (\<exists>u. r = Inr u)"
  by (cases r) auto

lemma try_set_apply:
  "try_set u k m k' = (if k' = k then (case m of Inl _ \<Rightarrow> u k | Inr x \<Rightarrow> Some x) else u k')"
  by (cases m) (auto simp: try_set_def)

lemma required_Inr:
  assumes "required_metadata pmd dl now = Inr u"
  shows "\<exists>bm ros ro d1s d1 d2s d2 a1 a3 a4 a2 b1 b3 b4 b2.
           pmd ''beam_mode'' = Some bm \<and> pmd ''relative_orbit'' = Some ros \<and> int_of_str ros = Inr ro \<and>
           py_index dl 0 = Inr d1s \<and> strptime [] d1s = Inr d1 \<and>
           py_index dl (- 1) = Inr d2s \<and> strptime [] d2s = Inr d2 \<and>
           pmd ''LON_REF1'' = Some a1 \<and> pmd ''LON_REF3'' = Some a3 \<and> pmd ''LON_REF4'' = Some a4 \<and>
           pmd ''LON_REF2'' = Some a2 \<and> pmd ''LAT_REF1'' = Some b1 \<and> pmd ''LAT_REF3'' = Some b3 \<and>
           pmd ''LAT_REF4'' = Some b4 \<and> pmd ''LAT_REF2'' = Some b2 \<and>
           u = [''mission'' \<mapsto> (case get_mission_name pmd of None \<Rightarrow> PNone | Some s \<Rightarrow> PStr s),
                ''beam_mode'' \<mapsto> PStr bm,
                ''beam_swath'' \<mapsto> PInt (try_except (ebind (getitem pmd ''beam_swath'') int_of_str) 0),
                ''relative_orbit'' \<mapsto> PInt ro,
                ''processing_type'' \<mapsto> PStr (try_except (getitem pmd ''processing_type'') ''LOS_TIMESERIES''),
                ''first_date'' \<mapsto> PStr (isoformat10 d1),
                ''last_date'' \<mapsto> PStr (isoformat10 d2),
                ''scene_footprint'' \<mapsto> PStr (wkt_polygon [a1, a3, a4, a2, a1] [b1, b3, b4, b2, b1]),
                ''history'' \<mapsto> PStr (isoformat10 now)]"
  using assms unfolding required_metadata_def Let_def
  by (simp add: ebind_Inr_iff getitem_Inr_iff) blast

lemma recommended_other:
  assumes "recommended_metadata F pmd u = Inr u'"
    and "k \<notin> set [''frame'', ''atmos_correct_method'', ''post_processing_method'', ''processing_dem'',
                   ''unwrap_method'', ''flight_direction'', ''look_direction'', ''polarization'', ''prf'',
                   ''wavelength'']"
  shows "u' k = u k"
  using assms unfolding recommended_metadata_def Let_def
  by (auto simp add: ebind_Inr_iff try_set_apply)

lemma insarmaps_absent: "pmd ''X_FIRST'' = None \<Longrightarrow> insarmaps_metadata F pmd u = Inr u"
  by (simp add: insarmaps_metadata_def)

lemma insarmaps_present:
  assumes "insarmaps_metadata F pmd u = Inr u'" and "pmd ''X_FIRST'' \<noteq> None"
  shows "\<exists>xf yf xs ys w l lon0 lat0 x_step y_step width length dx dy.
           pmd ''X_FIRST'' = Some xf \<and> float_of_str F xf = Inr lon0 \<and>
           pmd ''Y_FIRST'' = Some yf \<and> float_of_str F yf = Inr lat0 \<and>
           pmd ''X_STEP'' = Some xs \<and> float_of_str F xs = Inr x_step \<and>
           pmd ''WIDTH'' = Some w \<and> int_of_str w = Inr width \<and>
           float_times_int F x_step width = Inr dx \<and>
           pmd ''Y_STEP'' = Some ys \<and> float_of_str F ys = Inr y_step \<and>
           pmd ''LENGTH'' = Some l \<and> int_of_str l = Inr length \<and>
           float_times_int F y_step length = Inr dy \<and>
           u' = u(''data_footprint'' \<mapsto> PStr (wkt_polygon
                  (map (float_str F) [lon0, float_add F lon0 dx, float_add F lon0 dx, lon0, lon0])
                  (map (float_str F) [lat0, lat0, float_add F lat0 dy, float_add F lat0 dy, lat0])))"
  using assms unfolding insarmaps_metadata_def Let_def
  by (simp add: ebind_Inr_iff getitem_Inr_iff) blast

lemma translate_Inr:
  assumes "translate_aliased F pmd dl now = Inr u"
  shows "\<exists>u1 u2. required_metadata pmd dl now = Inr u1 \<and> recommended_metadata F pmd u1 = Inr u2 \<and>
           insarmaps_metadata F pmd u2 = Inr u"
  using assms by (auto simp: translate_aliased_def ebind_Inr_iff)

lemma translate_required_key:
  assumes t: "translate_aliased F pmd dl now = Inr u"
    and r: "required_metadata pmd dl now = Inr u1"
    and k: "k \<in> set required_keys"
  shows "u k = u1 k"
proof -
  from t r obtain u2 where rec: "recommended_metadata F pmd u1 = Inr u2"
    and ins: "insarmaps_metadata F pmd u2 = Inr u"
    by (auto simp: translate_aliased_def ebind_Inr_iff)
  have a: "u2 k = u1 k"
    by (rule recommended_other[OF rec]) (use k in \<open>auto simp: required_keys_def\<close>)
  have b: "u k = u2 k"
  proof (cases "pmd ''X_FIRST''")
    case None
    with ins show ?thesis by (simp add: insarmaps_absent)
  next
    case (Some x)
    then have "pmd ''X_FIRST'' \<noteq> None" by simp
    from insarmaps_present[OF ins this] k show ?thesis
      by (auto simp: required_keys_def)
  qed
  from a b show ?thesis by simp
qed

lemma required_corner_missing:
  assumes "k \<in> set corner_keys" and "pmd k = None"
  shows "isl (required_metadata pmd dl now :: pyerr + (string \<rightharpoonup> 'f pyval))"
proof (rule ccontr)
  assume "\<not> ?thesis"
  then obtain u :: "string \<rightharpoonup> 'f pyval" where "required_metadata pmd dl now = Inr u"
    using sum_cases_isl by blast
  from required_Inr[OF this] assms show False
    by (auto simp: corner_keys_def)
qed

lemma get_mission_name_cong:
  assumes a: "m1 ''mission'' = m2 ''mission''" and b: "m1 ''PLATFORM'' = m2 ''PLATFORM''"
  shows "get_mission_name m1 = get_mission_name m2"
  unfolding get_mission_name_def a b ..

lemma int_of_str_0: "int_of_str ''0'' = Inr 0"
  by (simp add: int_of_str_def py_strip_def py_isspace_def take_sign_def digitpart_def is_digit_def
      digit_chars_def nat_of_digits_def digit_val_def)

lemma beam_swath_default:
  assumes "pmd ''beam_swath'' = None \<or> (\<exists>s. pmd ''beam_swath'' = Some s \<and> isl (int_of_str s))"
  shows "try_except (ebind (getitem pmd ''beam_swath'') int_of_str) 0 = 0"
  using assms by (auto simp: getitem_def try_except_def split: sum.splits)

lemma required_beam_swath_irrelevant:
  assumes "pmd ''beam_swath'' = None \<or> (\<exists>s. pmd ''beam_swath'' = Some s \<and> isl (int_of_str s))"
  shows "required_metadata (pmd(''beam_swath'' \<mapsto> ''0'')) dl now = required_metadata pmd dl now"
proof -
  let ?p = "pmd(''beam_swath'' \<mapsto> ''0'')"
  have a: "try_except (ebind (getitem pmd ''beam_swath'') int_of_str) 0 = 0"
    by (rule beam_swath_default[of pmd, OF assms])
  have b: "try_except (ebind (getitem ?p ''beam_swath'') int_of_str) 0 = 0"
    by (simp add: getitem_def int_of_str_0 try_except_def)
  have m: "get_mission_name ?p = get_mission_name pmd"
    by (rule get_mission_name_cong) simp_all
  have g: "getitem ?p ''beam_mode'' = getitem pmd ''beam_mode''"
    "getitem ?p ''relative_orbit'' = getitem pmd ''relative_orbit''"
    "getitem ?p ''processing_type'' = getitem pmd ''processing_type''"
    "getitem ?p ''LON_REF1'' = getitem pmd ''LON_REF1''"
    "getitem ?p ''LON_REF2'' = getitem pmd ''LON_REF2''"
    "getitem ?p ''LON_REF3'' = getitem pmd ''LON_REF3''"
    "getitem ?p ''LON_REF4'' = getitem pmd ''LON_REF4''"
    "getitem ?p ''LAT_REF1'' = getitem pmd ''LAT_REF1''"
    "getitem ?p ''LAT_REF2'' = getitem pmd ''LAT_REF2''"
    "getitem ?p ''LAT_REF3'' = getitem pmd ''LAT_REF3''"
    "getitem ?p ''LAT_REF4'' = getitem pmd ''LAT_REF4''"
    by (simp_all add: getitem_def)
  show ?thesis
    unfolding required_metadata_def a b m g ..
qed

lemma recommended_beam_swath_irrelevant:
  "recommended_metadata F (pmd(''beam_swath'' \<mapsto> v)) u = recommended_metadata F pmd u"
proof -
  let ?p = "pmd(''beam_swath'' \<mapsto> v)"
  have g: "getitem ?p ''atmos_correct_method'' = getitem pmd ''atmos_correct_method''"
    "getitem ?p ''post_processing_method'' = getitem pmd ''post_processing_method''"
    "getitem ?p ''processing_dem'' = getitem pmd ''processing_dem''"
    "getitem ?p ''unwrap_method'' = getitem pmd ''unwrap_method''"
    "getitem ?p ''ORBIT_DIRECTION'' = getitem pmd ''ORBIT_DIRECTION''"
    "getitem ?p ''ANTENNA_SIDE'' = getitem pmd ''ANTENNA_SIDE''"
    "getitem ?p ''POLARIZATION'' = getitem pmd ''POLARIZATION''"
    "getitem ?p ''PRF'' = getitem pmd ''PRF''"
    "getitem ?p ''WAVELENGTH'' = getitem pmd ''WAVELENGTH''"
    by (simp_all add: getitem_def)
  have l: "?p ''frame'' = pmd ''frame''" "?p ''first_frame'' = pmd ''first_frame''"
    by simp_all
  show ?thesis
    unfolding recommended_metadata_def g l ..
qed

lemma insarmaps_beam_swath_irrelevant:
  "insarmaps_metadata F (pmd(''beam_swath'' \<mapsto> v)) u = insarmaps_metadata F pmd u"
proof -
  let ?p = "pmd(''beam_swath'' \<mapsto> v)"
  have g: "getitem ?p ''X_FIRST'' = getitem pmd ''X_FIRST''"
    "getitem ?p ''Y_FIRST'' = getitem pmd ''Y_FIRST''"
    "getitem ?p ''X_STEP'' = getitem pmd ''X_STEP''"
    "getitem ?p ''Y_STEP'' = getitem pmd ''Y_STEP''"
    "getitem ?p ''WIDTH'' = getitem pmd ''WIDTH''"
    "getitem ?p ''LENGTH'' = getitem pmd ''LENGTH''"
    by (simp_all add: getitem_def)
  have l: "?p ''X_FIRST'' = pmd ''X_FIRST''"
    by simp
  show ?thesis
    unfolding insarmaps_metadata_def g l ..
qed

lemma insarmaps_beam_swath_irrelevant_fun:
  "insarmaps_metadata F (pmd(''beam_swath'' \<mapsto> v)) = insarmaps_metadata F pmd"
  by (rule ext) (rule insarmaps_beam_swath_irrelevant)

section \<open>The scene, evaluated\<close>

lemmas string_eval = getitem_def py_lower_def lower_char_def ascii_upper_def ascii_lower_def
  startswith_def startswith_any_def endswith_def try_except_def try_set_def emap_def
  int_of_str_def py_strip_def py_isspace_def take_sign_def digitpart_def is_digit_def
  digit_chars_def nat_of_digits_def digit_val_def py_index_def nat_digits.simps fmt_0d_def zfill_def

lemmas date_eval = strptime_def re_Y_def re_m_def re_d_def re_two_def re_one_def re_lit_def
  make_date_def days_in_month_def is_leap_def isoformat10_def strftime_Ymd_def

lemmas alias_eval = alias_step_def alias_under_def py_in_def startswith_def

lemma scene_aliased: "pysar_meta_dict_of scene_attributes = map_of (rev scene_attributes)"
proof -
  have "alias_loop Map.empty scene_attributes = Inr (map_of (rev scene_attributes))"
    unfolding scene_attributes_def by (simp add: alias_eval)
  then show ?thesis
    by (simp add: alias_loop_aliased pysar_meta_dict_of_def)
qed

lemma scene_required:
  "required_metadata (map_of (rev scene_attributes)) scene_dates scene_clock =
     Inr ([''mission'' \<mapsto> PStr ''S1'', ''beam_mode'' \<mapsto> PStr ''IW'', ''beam_swath'' \<mapsto> PInt 0,
      ''relative_orbit'' \<mapsto> PInt 5, ''processing_type'' \<mapsto> PStr ''LOS_TIMESERIES'',
      ''first_date'' \<mapsto> PStr ''2015-01-01'', ''last_date'' \<mapsto> PStr ''2018-12-31'',
      ''scene_footprint'' \<mapsto> PStr ''POLYGON((130.1 31.5,130.2 32.4,131.0 32.5,130.9 31.6,130.1 31.5))'',
      ''history'' \<mapsto> PStr ''2019-02-14''] :: string \<rightharpoonup> binary64 pyval)"
  unfolding scene_attributes_def scene_dates_def scene_clock_def required_metadata_def Let_def
  by (simp add: get_mission_name_def string_eval date_eval wkt_polygon_def)

lemma scene_translation:
  "metadata_pysar2unavco binary64 scene_attributes scene_dates scene_clock = Inr scene_metadata"
  unfolding metadata_pysar2unavco_aliased translate_aliased_def scene_aliased scene_required
  unfolding scene_attributes_def scene_metadata_def recommended_metadata_def insarmaps_metadata_def Let_def
  by (simp add: string_eval)

section \<open>Statements about the translator\<close>

text \<open>
  Claim C10. When any of the eight corner keys \<^verbatim>\<open>LON_REF1\<close> to \<^verbatim>\<open>LON_REF4\<close>,
  \<^verbatim>\<open>LAT_REF1\<close> to \<^verbatim>\<open>LAT_REF4\<close> is absent from the aliased source dictionary,
  \<open>metadata_pysar2unavco\<close> ends in a raised exception: the footprint is built
  from all eight with no fallback.
\<close>

theorem corner_key_missing_is_error:
  assumes "k \<in> set corner_keys" and "pysar_meta_dict_of src k = None"
  shows "isl (metadata_pysar2unavco (F :: 'f float_ops) src dl now)"
  using assms required_corner_missing[of k "pysar_meta_dict_of src" dl now, where 'f = 'f]
  by (simp add: metadata_pysar2unavco_aliased translate_aliased_def ebind_isl)

theorem corner_key_missing_is_error_witness:
  "''LAT_REF4'' \<in> set corner_keys \<and>
   pysar_meta_dict_of (butlast scene_attributes) ''LAT_REF4'' = None \<and>
   isl (metadata_pysar2unavco binary64 (butlast scene_attributes) scene_dates scene_clock)"
proof -
  have k: "''LAT_REF4'' \<in> set corner_keys" by (simp add: corner_keys_def)
  have "alias_loop Map.empty (butlast scene_attributes) = Inr (map_of (rev (butlast scene_attributes)))"
    unfolding scene_attributes_def by (simp add: alias_eval)
  then have "pysar_meta_dict_of (butlast scene_attributes) = map_of (rev (butlast scene_attributes))"
    by (simp add: alias_loop_aliased pysar_meta_dict_of_def)
  then have n: "pysar_meta_dict_of (butlast scene_attributes) ''LAT_REF4'' = None"
    by (simp add: scene_attributes_def)
  from corner_key_missing_is_error[OF k n] k n show ?thesis by simp
qed

text \<open>
  Claim C8. Whenever \<open>metadata_pysar2unavco\<close> returns, the dictionary it returns has
  all eight required keys: \<^verbatim>\<open>mission\<close>, \<^verbatim>\<open>beam_mode\<close>, \<^verbatim>\<open>beam_swath\<close>,
  \<^verbatim>\<open>relative_orbit\<close>, \<^verbatim>\<open>first_date\<close>, \<^verbatim>\<open>last_date\<close>,
  \<^verbatim>\<open>scene_footprint\<close> and \<^verbatim>\<open>history\<close> (the mission possibly \<^verbatim>\<open>None\<close>).
\<close>

theorem required_keys_present:
  assumes "metadata_pysar2unavco (F :: 'f float_ops) src dl now = Inr u"
  shows "set required_keys \<subseteq> dom u"
proof
  fix k assume k: "k \<in> set required_keys"
  from assms have t: "translate_aliased F (pysar_meta_dict_of src) dl now = Inr u"
    by (simp add: metadata_pysar2unavco_aliased)
  from translate_Inr[OF t] obtain u1 :: "string \<rightharpoonup> 'f pyval"
    where r: "required_metadata (pysar_meta_dict_of src) dl now = Inr u1"
    by blast
  have "u k = u1 k" by (rule translate_required_key[OF t r k])
  moreover from required_Inr[OF r] k have "u1 k \<noteq> None"
    by (auto simp: required_keys_def)
  ultimately show "k \<in> dom u" by (simp add: dom_def)
qed

theorem required_keys_present_witness:
  "metadata_pysar2unavco binary64 scene_attributes scene_dates scene_clock = Inr scene_metadata \<and>
   set required_keys \<subseteq> dom scene_metadata"
  using required_keys_present[OF scene_translation] scene_translation by simp

text \<open>
  Claim C6. For a source whose aliased dictionary holds the eight corner keys, the
  translated \<^verbatim>\<open>scene_footprint\<close> is the text \<^verbatim>\<open>POLYGON((...))\<close> of five
  \<^verbatim>\<open>lon lat\<close> vertices separated by commas, taken from the corners numbered 1, 3, 4,
  2 and 1 again, in this order.
\<close>

theorem scene_footprint_corner_order:
  assumes "metadata_pysar2unavco (F :: 'f float_ops) src dl now = Inr u"
    and "pysar_meta_dict_of src ''LON_REF1'' = Some lon1" and "pysar_meta_dict_of src ''LAT_REF1'' = Some lat1"
    and "pysar_meta_dict_of src ''LON_REF2'' = Some lon2" and "pysar_meta_dict_of src ''LAT_REF2'' = Some lat2"
    and "pysar_meta_dict_of src ''LON_REF3'' = Some lon3" and "pysar_meta_dict_of src ''LAT_REF3'' = Some lat3"
    and "pysar_meta_dict_of src ''LON_REF4'' = Some lon4" and "pysar_meta_dict_of src ''LAT_REF4'' = Some lat4"
  shows "u ''scene_footprint'' =
           Some (PStr (''POLYGON(('' @ lon1 @ '' '' @ lat1 @ '','' @ lon3 @ '' '' @ lat3 @ '','' @
                       lon4 @ '' '' @ lat4 @ '','' @ lon2 @ '' '' @ lat2 @ '','' @ lon1 @ '' '' @ lat1 @ ''))''))"
proof -
  from assms(1) have t: "translate_aliased F (pysar_meta_dict_of src) dl now = Inr u"
    by (simp add: metadata_pysar2unavco_aliased)
  from translate_Inr[OF t] obtain u1 :: "string \<rightharpoonup> 'f pyval"
    where r: "required_metadata (pysar_meta_dict_of src) dl now = Inr u1"
    by blast
  have "u ''scene_footprint'' = u1 ''scene_footprint''"
    by (rule translate_required_key[OF t r]) (simp add: required_keys_def)
  moreover from required_Inr[OF r] assms(2-9)
  have "u1 ''scene_footprint'' = Some (PStr (wkt_polygon [lon1, lon3, lon4, lon2, lon1] [lat1, lat3, lat4, lat2, lat1]))"
    by auto
  ultimately show ?thesis by (simp add: wkt_polygon_def)
qed

theorem scene_footprint_corner_order_witness:
  "metadata_pysar2unavco binary64 scene_attributes scene_dates scene_clock = Inr scene_metadata \<and>
   pysar_meta_dict_of scene_attributes ''LON_REF1'' = Some ''130.1'' \<and>
   pysar_meta_dict_of scene_attributes ''LAT_REF1'' = Some ''31.5'' \<and>
   pysar_meta_dict_of scene_attributes ''LON_REF2'' = Some ''130.9'' \<and>
   pysar_meta_dict_of scene_attributes ''LAT_REF2'' = Some ''31.6'' \<and>
   pysar_meta_dict_of scene_attributes ''LON_REF3'' = Some ''130.2'' \<and>
   pysar_meta_dict_of scene_attributes ''LAT_REF3'' = Some ''32.4'' \<and>
   pysar_meta_dict_of scene_attributes ''LON_REF4'' = Some ''131.0'' \<and>
   pysar_meta_dict_of scene_attributes ''LAT_REF4'' = Some ''32.5'' \<and>
   scene_metadata ''scene_footprint'' =
     Some (PStr ''POLYGON((130.1 31.5,130.2 32.4,131.0 32.5,130.9 31.6,130.1 31.5))'')"
proof -
  have c: "pysar_meta_dict_of scene_attributes ''LON_REF1'' = Some ''130.1''"
    "pysar_meta_dict_of scene_attributes ''LAT_REF1'' = Some ''31.5''"
    "pysar_meta_dict_of scene_attributes ''LON_REF2'' = Some ''130.9''"
    "pysar_meta_dict_of scene_attributes ''LAT_REF2'' = Some ''31.6''"
    "pysar_meta_dict_of scene_attributes ''LON_REF3'' = Some ''130.2''"
    "pysar_meta_dict_of scene_attributes ''LAT_REF3'' = Some ''32.4''"
    "pysar_meta_dict_of scene_attributes ''LON_REF4'' = Some ''131.0''"
    "pysar_meta_dict_of scene_attributes ''LAT_REF4'' = Some ''32.5''"
    unfolding scene_aliased by (simp_all add: scene_attributes_def)
  from scene_footprint_corner_order[OF scene_translation c] scene_translation c
  show ?thesis by simp
qed

text \<open>
  Claim C3. A source whose aliased dictionary has no \<^verbatim>\<open>relative_orbit\<close> makes
  \<open>metadata_pysar2unavco\<close> raise; a returned \<^verbatim>\<open>relative_orbit\<close> is always the
  integer read from that entry, never a default. When \<^verbatim>\<open>beam_swath\<close> is absent or
  is not the text of an integer, a returned \<^verbatim>\<open>beam_swath\<close> is 0 and the translation
  goes on as it would with a \<^verbatim>\<open>beam_swath\<close> of \<^verbatim>\<open>'0'\<close>: the same result or
  the same exception from the statements that follow.
\<close>

theorem relative_orbit_is_required_beam_swath_defaults:
  fixes F :: "'f float_ops"
  shows "(pysar_meta_dict_of src ''relative_orbit'' = None \<longrightarrow> isl (metadata_pysar2unavco F src dl now)) \<and>
    (\<forall>u. metadata_pysar2unavco F src dl now = Inr u \<longrightarrow>
       (\<exists>s n. pysar_meta_dict_of src ''relative_orbit'' = Some s \<and> int_of_str s = Inr n \<and>
              u ''relative_orbit'' = Some (PInt n))) \<and>
    (pysar_meta_dict_of src ''beam_swath'' = None \<or>
       (\<exists>s. pysar_meta_dict_of src ''beam_swath'' = Some s \<and> isl (int_of_str s)) \<longrightarrow>
       (\<forall>u. metadata_pysar2unavco F src dl now = Inr u \<longrightarrow> u ''beam_swath'' = Some (PInt 0)) \<and>
       metadata_pysar2unavco F src dl now =
         translate_aliased F ((pysar_meta_dict_of src)(''beam_swath'' \<mapsto> ''0'')) dl now)"
proof (intro conjI impI allI)
  let ?pmd = "pysar_meta_dict_of src"
  have ro: "\<exists>s n. ?pmd ''relative_orbit'' = Some s \<and> int_of_str s = Inr n \<and> u ''relative_orbit'' = Some (PInt n)"
    if h: "metadata_pysar2unavco F src dl now = Inr u" for u
  proof -
    from h have t: "translate_aliased F ?pmd dl now = Inr u"
      by (simp add: metadata_pysar2unavco_aliased)
    from translate_Inr[OF t] obtain u1 :: "string \<rightharpoonup> 'f pyval"
      where r: "required_metadata ?pmd dl now = Inr u1" by blast
    have "u ''relative_orbit'' = u1 ''relative_orbit''"
      by (rule translate_required_key[OF t r]) (simp add: required_keys_def)
    with required_Inr[OF r] show ?thesis by auto
  qed
  show "\<exists>s n. ?pmd ''relative_orbit'' = Some s \<and> int_of_str s = Inr n \<and> u ''relative_orbit'' = Some (PInt n)"
    if "metadata_pysar2unavco F src dl now = Inr u" for u
    using ro[OF that] .
  show "isl (metadata_pysar2unavco F src dl now)" if n: "?pmd ''relative_orbit'' = None"
  proof (rule ccontr)
    assume "\<not> ?thesis"
    then obtain u where "metadata_pysar2unavco F src dl now = Inr u"
      using sum_cases_isl by blast
    from ro[OF this] n show False by auto
  qed
next
  fix u
  assume bad: "pysar_meta_dict_of src ''beam_swath'' = None \<or>
       (\<exists>s. pysar_meta_dict_of src ''beam_swath'' = Some s \<and> isl (int_of_str s))"
    and h: "metadata_pysar2unavco F src dl now = Inr u"
  let ?pmd = "pysar_meta_dict_of src"
  from h have t: "translate_aliased F ?pmd dl now = Inr u"
    by (simp add: metadata_pysar2unavco_aliased)
  from translate_Inr[OF t] obtain u1 :: "string \<rightharpoonup> 'f pyval"
    where r: "required_metadata ?pmd dl now = Inr u1" by blast
  have "u ''beam_swath'' = u1 ''beam_swath''"
    by (rule translate_required_key[OF t r]) (simp add: required_keys_def)
  with required_Inr[OF r] beam_swath_default[of ?pmd, OF bad] show "u ''beam_swath'' = Some (PInt 0)"
    by auto
next
  assume bad: "pysar_meta_dict_of src ''beam_swath'' = None \<or>
       (\<exists>s. pysar_meta_dict_of src ''beam_swath'' = Some s \<and> isl (int_of_str s))"
  let ?pmd = "pysar_meta_dict_of src"
  show "metadata_pysar2unavco F src dl now =
         translate_aliased F ((pysar_meta_dict_of src)(''beam_swath'' \<mapsto> ''0'')) dl now"
    by (simp add: metadata_pysar2unavco_aliased translate_aliased_def
        required_beam_swath_irrelevant[of ?pmd, OF bad] recommended_beam_swath_irrelevant
        insarmaps_beam_swath_irrelevant_fun)
qed

theorem relative_orbit_is_required_beam_swath_defaults_witness:
  "pysar_meta_dict_of (remove1 (''relative_orbit'', ''5'') scene_attributes) ''relative_orbit'' = None \<and>
   isl (metadata_pysar2unavco binary64 (remove1 (''relative_orbit'', ''5'') scene_attributes) scene_dates scene_clock) \<and>
   metadata_pysar2unavco binary64 scene_attributes scene_dates scene_clock = Inr scene_metadata \<and>
   pysar_meta_dict_of scene_attributes ''relative_orbit'' = Some ''5'' \<and>
   scene_metadata ''relative_orbit'' = Some (PInt 5) \<and>
   pysar_meta_dict_of scene_attributes ''beam_swath'' = None \<and>
   scene_metadata ''beam_swath'' = Some (PInt 0)"
proof -
  let ?s = "remove1 (''relative_orbit'', ''5'') scene_attributes"
  have "alias_loop Map.empty ?s = Inr (map_of (rev ?s))"
    unfolding scene_attributes_def by (simp add: alias_eval)
  then have "pysar_meta_dict_of ?s = map_of (rev ?s)"
    by (simp add: alias_loop_aliased pysar_meta_dict_of_def)
  then have n: "pysar_meta_dict_of ?s ''relative_orbit'' = None"
    by (simp add: scene_attributes_def)
  have b: "pysar_meta_dict_of scene_attributes ''beam_swath'' = None"
    "pysar_meta_dict_of scene_attributes ''relative_orbit'' = Some ''5''"
    unfolding scene_aliased by (simp_all add: scene_attributes_def)
  have m: "scene_metadata ''relative_orbit'' = Some (PInt 5)" "scene_metadata ''beam_swath'' = Some (PInt 0)"
    by (simp_all add: scene_metadata_def)
  from relative_orbit_is_required_beam_swath_defaults[of ?s binary64 scene_dates scene_clock] n
  have "isl (metadata_pysar2unavco binary64 ?s scene_dates scene_clock)" by blast
  with relative_orbit_is_required_beam_swath_defaults[of scene_attributes binary64 scene_dates scene_clock]
    n b m scene_translation
  show ?thesis by simp
qed

section \<open>Aliasing precedence and the data footprint\<close>

lemmas scene_eval = get_mission_name_def string_eval date_eval alias_eval wkt_polygon_def
  py_upper_def upper_char_def

lemma override_first_translation:
  "metadata_pysar2unavco binary64 override_first scene_dates scene_clock = Inr scene_metadata"
  unfolding metadata_pysar2unavco_def override_first_def scene_attributes_def scene_dates_def
    scene_clock_def scene_metadata_def required_metadata_def recommended_metadata_def
    insarmaps_metadata_def Let_def
  by (simp add: scene_eval py_split_def)

lemma override_last_translation:
  "metadata_pysar2unavco binary64 override_last scene_dates scene_clock = Inr override_metadata"
  unfolding metadata_pysar2unavco_def override_last_def scene_attributes_def scene_dates_def
    scene_clock_def override_metadata_def required_metadata_def recommended_metadata_def
    insarmaps_metadata_def Let_def
  by (simp add: scene_eval py_split_def)

text \<open>
  Claim C2, as stated, fails: it promises the override value for any order of the two
  keys. In \<open>override_first\<close> the key \<^verbatim>\<open>hdfEos5.relative_orbit\<close> (value 7) is iterated
  before \<^verbatim>\<open>relative_orbit\<close> (value 5); the loop writes the alias first and the base
  key over it, and the translated \<^verbatim>\<open>relative_orbit\<close> is 5.
\<close>

theorem override_before_base_loses:
  "map_of override_first ''hdfEos5.relative_orbit'' = Some ''7'' \<and>
   map_of override_first ''relative_orbit'' = Some ''5'' \<and>
   result_field (metadata_pysar2unavco binary64 override_first scene_dates scene_clock) ''relative_orbit''
     = Inr (Some (PInt 5))"
  by (simp add: override_first_translation result_field_def emap_def)
     (simp add: override_first_def scene_attributes_def scene_metadata_def)

text \<open>
  Claim C2, amended. The loop has no precedence between a base key and its aliases: the
  last key in iteration order that writes \<^verbatim>\<open>relative_orbit\<close> (the key itself, or a
  key with a marker whose suffix it is) decides. So for a source in which the override
  key comes after the base key, and no later key writes \<^verbatim>\<open>relative_orbit\<close>, a
  returned \<^verbatim>\<open>relative_orbit\<close> is the integer read from the override's value.
\<close>

theorem last_writer_of_relative_orbit_wins:
  fixes F :: "'f float_ops"
  assumes "src = xs @ (key, v) # ys"
    and "''relative_orbit'' \<in> set (alias_targets key)"
    and "\<forall>kv \<in> set ys. ''relative_orbit'' \<notin> set (alias_targets (fst kv))"
    and "metadata_pysar2unavco F src dl now = Inr u"
  shows "pysar_meta_dict_of src ''relative_orbit'' = Some v \<and>
         (\<exists>n. int_of_str v = Inr n \<and> u ''relative_orbit'' = Some (PInt n))"
proof -
  have a: "pysar_meta_dict_of src ''relative_orbit'' = Some v"
    unfolding pysar_meta_dict_of_def assms(1)
    by (rule aliased_last_writer[OF assms(2,3)])
  from assms(4) have t: "translate_aliased F (pysar_meta_dict_of src) dl now = Inr u"
    by (simp add: metadata_pysar2unavco_aliased)
  from translate_Inr[OF t] obtain u1 :: "string \<rightharpoonup> 'f pyval"
    where r: "required_metadata (pysar_meta_dict_of src) dl now = Inr u1" by blast
  have "u ''relative_orbit'' = u1 ''relative_orbit''"
    by (rule translate_required_key[OF t r]) (simp add: required_keys_def)
  with required_Inr[OF r] a show ?thesis by auto
qed

theorem last_writer_of_relative_orbit_wins_witness:
  "override_last = scene_attributes @ (''hdfEos5.relative_orbit'', ''7'') # [] \<and>
   (''relative_orbit'', ''5'') \<in> set scene_attributes \<and>
   ''relative_orbit'' \<in> set (alias_targets ''hdfEos5.relative_orbit'') \<and>
   metadata_pysar2unavco binary64 override_last scene_dates scene_clock = Inr override_metadata \<and>
   pysar_meta_dict_of override_last ''relative_orbit'' = Some ''7'' \<and>
   override_metadata ''relative_orbit'' = Some (PInt 7)"
proof -
  have s: "override_last = scene_attributes @ (''hdfEos5.relative_orbit'', ''7'') # []"
    by (simp add: override_last_def)
  have b: "(''relative_orbit'', ''5'') \<in> set scene_attributes"
    by (simp add: scene_attributes_def)
  have t: "''relative_orbit'' \<in> set (alias_targets ''hdfEos5.relative_orbit'')"
    by (simp add: override_targets)
  have e: "\<forall>kv \<in> set []. ''relative_orbit'' \<notin> set (alias_targets (fst kv))"
    by simp
  have m: "override_metadata ''relative_orbit'' = Some (PInt 7)"
    by (simp add: override_metadata_def)
  from last_writer_of_relative_orbit_wins[OF s t e override_last_translation] s b t m
    override_last_translation
  show ?thesis by simp
qed







end
